theory Spec2Isabelle
  imports Complex_Main
begin

section \<open>JavaScript values as the client reads them\<close>

text \<open>
  The client is TypeScript over untyped (\<open>any\<close>) payloads. Only the primitive values a
  test of the source can tell apart are modelled; \<open>JObject\<close> stands for any object or
  array (always truthy). \<open>truthy\<close> is the coercion behind \<open>!x\<close>, \<open>x || y\<close> and \<open>if (x)\<close>.
\<close>

datatype jsval = JUndefined | JNull | JBool bool | JNum int | JStr string | JObject

fun truthy :: "jsval \<Rightarrow> bool" where
  "truthy JUndefined = False"
| "truthy JNull = False"
| "truthy (JBool b) = b"
| "truthy (JNum n) = (n \<noteq> 0)"
| "truthy (JStr s) = (s \<noteq> [])"
| "truthy JObject = True"

definition js_or :: "jsval \<Rightarrow> jsval \<Rightarrow> jsval" where
  "js_or a b = (if truthy a then a else b)"

text \<open>\<open>msg || fallback\<close> on a message that is a string when present: an absent message
  and the empty string are both falsy, so both are the empty string here.\<close>

definition str_or :: "string \<Rightarrow> string \<Rightarrow> string" where
  "str_or a b = (if a \<noteq> [] then a else b)"

text \<open>\<open>Array.prototype.slice(start, end)\<close> for integer arguments: a negative index counts
  from the end, and both are clamped to the array.\<close>

definition js_slice :: "'a list \<Rightarrow> int \<Rightarrow> int \<Rightarrow> 'a list" where
  "js_slice xs start stop =
     (let n = int (length xs);
          k = (if start < 0 then max (n + start) 0 else min start n);
          final = (if stop < 0 then max (n + stop) 0 else min stop n)
      in take (nat (final - k)) (drop (nat k) xs))"

text \<open>\<open>n.toString()\<close> for a natural number, in decimal (the result code of
  \<open>object.listWithIterator\<close> is the number of failed pages, printed).\<close>

definition digit_char :: "nat \<Rightarrow> char" where
  "digit_char d = ''0123456789'' ! d"

fun string_of_nat :: "nat \<Rightarrow> string" where
  "string_of_nat n =
     (if n div 10 = 0 then [digit_char n]
      else string_of_nat (n div 10) @ [digit_char (n mod 10)])"

section \<open>Failures and the retry executor (index.ts, lines 25-117)\<close>

text \<open>
  A thrown value, with the three things \<open>isRetryableError\<close> inspects: \<open>error.code\<close>,
  whether \<open>axios.isAxiosError(error)\<close> holds, and, for an axios error only,
  \<open>error.response\<close> (\<open>None\<close> when no response was received) with its status. The source
  never reads \<open>response\<close> of a value that is not an axios error.
\<close>

datatype js_error =
    AxiosError (err_code: "string option") (response_status: "int option") (message: string)
  | OtherError (err_code: "string option") (message: string)

definition isRetryableError :: "js_error \<Rightarrow> bool" where
  "isRetryableError error =
     (if err_code error = Some ''ECONNRESET'' \<or> err_code error = Some ''ETIMEDOUT''
         \<or> err_code error = Some ''ENOTFOUND'' then True
      else case error of
             AxiosError c response m \<Rightarrow>
               (case response of
                  None \<Rightarrow> True
                | Some status \<Rightarrow>
                    if status \<ge> 500 then True
                    else if status = 429 then True
                    else False)
           | OtherError c m \<Rightarrow> False)"

text \<open>\<open>RetryOptions\<close>: every field is optional; the defaults are applied by the
  destructuring at the head of \<open>executeWithRetry\<close>. Numbers are exact here (\<open>int\<close>,
  \<open>real\<close>); IEEE rounding is not modelled.\<close>

record RetryOptions =
  maxRetries :: "int option"
  initialDelay :: "real option"
  maxDelay :: "real option"
  backoffMultiplier :: "real option"

definition no_options :: RetryOptions where
  "no_options = \<lparr>maxRetries = None, initialDelay = None, maxDelay = None,
                  backoffMultiplier = None\<rparr>"

text \<open>
  The \<open>for\<close> loop of \<open>executeWithRetry\<close>. The operation \<open>fn\<close> runs on a state \<open>'s\<close> and
  either returns (\<open>Inr\<close>) or throws (\<open>Inl\<close>); \<open>sleep d\<close> is the effect of awaiting a timer
  of \<open>d\<close> milliseconds. The result is \<open>Inl lastError\<close> when the executor throws, where
  \<open>lastError\<close> is \<open>None\<close> (\<open>undefined\<close>) if no attempt was made. The loop counter is
  never negative, so \<open>Math.pow(backoffMultiplier, attempt)\<close> is a power by a natural
  number. Logging has no effect on control flow and is left out. The primed names are
  the destructured options.
\<close>

function retry_loop ::
  "(real \<Rightarrow> 's \<Rightarrow> 's) \<Rightarrow> ('s \<Rightarrow> (js_error + 'a) \<times> 's) \<Rightarrow> int \<Rightarrow> real \<Rightarrow> real \<Rightarrow> real \<Rightarrow>
   int \<Rightarrow> js_error option \<Rightarrow> 's \<Rightarrow> (js_error option + 'a) \<times> 's" where
  "retry_loop sleep fn maxRetries' initialDelay' maxDelay' backoffMultiplier' attempt lastError s =
     (if attempt \<le> maxRetries' then
        (case fn s of
           (Inr v, s') \<Rightarrow> (Inr v, s')
         | (Inl error, s') \<Rightarrow>
             if attempt = maxRetries' then (Inl (Some error), s')
             else if \<not> isRetryableError error then (Inl (Some error), s')
             else retry_loop sleep fn maxRetries' initialDelay' maxDelay' backoffMultiplier'
                    (attempt + 1) (Some error)
                    (sleep (min (initialDelay' * backoffMultiplier' ^ nat attempt) maxDelay') s'))
      else (Inl lastError, s))"
  by pat_completeness auto
termination
  by (relation "measure (\<lambda>(sleep, fn, maxRetries', initialDelay', maxDelay', backoffMultiplier',
        attempt, lastError, s). nat (maxRetries' + 1 - attempt))") auto

definition executeWithRetry ::
  "(real \<Rightarrow> 's \<Rightarrow> 's) \<Rightarrow> ('s \<Rightarrow> (js_error + 'a) \<times> 's) \<Rightarrow> RetryOptions \<Rightarrow> 's \<Rightarrow>
   (js_error option + 'a) \<times> 's" where
  "executeWithRetry sleep fn options s =
     retry_loop sleep fn
       (case maxRetries options of None \<Rightarrow> 3 | Some m \<Rightarrow> m)
       (case initialDelay options of None \<Rightarrow> 1000 | Some d \<Rightarrow> d)
       (case maxDelay options of None \<Rightarrow> 10000 | Some d \<Rightarrow> d)
       (case backoffMultiplier options of None \<Rightarrow> 2 | Some b \<Rightarrow> b)
       0 None s"

section \<open>The client, its credential and the transport (index.ts, lines 148-246)\<close>

text \<open>
  The client's fields, with two more that the source does not have but its effects
  need: \<open>trace\<close> lists every invocation of the HTTP transport so far, in order, and
  \<open>remote\<close> is the state of everything outside the process (server, network, clock).
\<close>

datatype 'b request = TokenRequest | ApiRequest 'b

record ('b, 'w) client =
  disableTokenCache :: bool
  accessToken :: "string option"
  expireTime :: "int option"
  trace :: "'b request list"
  remote :: 'w

text \<open>The body of the reply of the credential endpoint (\<open>interface TokenResponse\<close>).\<close>

record TokenResponse =
  token_code :: string
  token_msg :: string
  data_accessToken :: string
  data_expireTime :: int

text \<open>
  The collaborators outside the source, taken as parameters: the wall clock
  (\<open>dayjs().valueOf()\<close>), the credential endpoint and the operation's endpoint behind
  axios (each reply is either thrown, \<open>Inl\<close>, or a response body, \<open>Inr\<close>), and what the
  passing of time during a backoff delay does to the outside.
\<close>

record ('b, 'r, 'w) env =
  clock :: "'w \<Rightarrow> int"
  token_endpoint :: "'w \<Rightarrow> (js_error + TokenResponse) \<times> 'w"
  api_endpoint :: "'b \<Rightarrow> 'w \<Rightarrow> (js_error + 'r) \<times> 'w"
  pause :: "real \<Rightarrow> 'w \<Rightarrow> 'w"

definition axios_token ::
  "('b, 'r, 'w) env \<Rightarrow> ('b, 'w) client \<Rightarrow> (js_error + TokenResponse) \<times> ('b, 'w) client" where
  "axios_token E c =
     (case token_endpoint E (remote c) of
        (reply, w') \<Rightarrow> (reply, c\<lparr>trace := trace c @ [TokenRequest], remote := w'\<rparr>))"

definition axios_api ::
  "('b, 'r, 'w) env \<Rightarrow> 'b \<Rightarrow> ('b, 'w) client \<Rightarrow> (js_error + 'r) \<times> ('b, 'w) client" where
  "axios_api E req c =
     (case api_endpoint E req (remote c) of
        (reply, w') \<Rightarrow> (reply, c\<lparr>trace := trace c @ [ApiRequest req], remote := w'\<rparr>))"

definition sleep_client :: "('b, 'r, 'w) env \<Rightarrow> real \<Rightarrow> ('b, 'w) client \<Rightarrow> ('b, 'w) client" where
  "sleep_client E d c = c\<lparr>remote := pause E d (remote c)\<rparr>"

text \<open>\<open>getAccessToken\<close>: one call of the credential endpoint; the token and its expiry
  are stored only on code \<open>'0'\<close>. (The text of the thrown message is Chinese in the
  source.)\<close>

definition getAccessToken ::
  "('b, 'r, 'w) env \<Rightarrow> ('b, 'w) client \<Rightarrow> (js_error + unit) \<times> ('b, 'w) client" where
  "getAccessToken E c =
     (case axios_token E c of
        (Inl error, c') \<Rightarrow> (Inl error, c')
      | (Inr res, c') \<Rightarrow>
          if token_code res \<noteq> ''0''
          then (Inl (OtherError None (''getAccessToken failed: '' @ token_msg res)), c')
          else (Inr (), c'\<lparr>accessToken := Some (data_accessToken res),
                            expireTime := Some (data_expireTime res)\<rparr>))"

text \<open>\<open>ensureTokenValid\<close>. \<open>!this.accessToken\<close> holds of \<open>null\<close> and of the empty string,
  \<open>!this.expireTime\<close> of \<open>null\<close> and of \<open>0\<close>.\<close>

definition ensureTokenValid ::
  "('b, 'r, 'w) env \<Rightarrow> ('b, 'w) client \<Rightarrow> (js_error + unit) \<times> ('b, 'w) client" where
  "ensureTokenValid E c =
     (if disableTokenCache c then getAccessToken E c
      else if accessToken c = None \<or> accessToken c = Some [] \<or> expireTime c = None
              \<or> expireTime c = Some 0
      then getAccessToken E c
      else if clock E (remote c) + 60 * 1000 > the (expireTime c) then getAccessToken E c
      else (Inr (), c))"

text \<open>Modelled from the spec: \<open>functionLimiter\<close> is imported from \<open>./limiter\<close>, which is
  not among the sources. By the spec's contract of the call scheduler it admits the
  operation and returns its result or propagates its failure unchanged; for the
  sequential callers modelled here that is the operation itself.\<close>

definition functionLimiter :: "('s \<Rightarrow> 'r \<times> 's) \<Rightarrow> 's \<Rightarrow> 'r \<times> 's" where
  "functionLimiter operation = operation"

text \<open>The shape shared by every unit call of the source (\<open>object.list\<close>,
  \<open>object.search.records\<close>, \<open>object.create.records\<close>, \<open>page.list\<close>, ...):
  \<open>await this.ensureTokenValid()\<close>, then one axios request, then \<open>return res.data\<close>.\<close>

definition api_call ::
  "('b, 'r, 'w) env \<Rightarrow> 'b \<Rightarrow> ('b, 'w) client \<Rightarrow> (js_error + 'r) \<times> ('b, 'w) client" where
  "api_call E req c =
     (case ensureTokenValid E c of
        (Inl error, c') \<Rightarrow> (Inl error, c')
      | (Inr u, c') \<Rightarrow> axios_api E req c')"

section \<open>Response bodies\<close>

text \<open>
  The envelope \<open>{code, msg, data}\<close> with the fields of \<open>data\<close> the source reads. A field
  is \<open>None\<close> when \<open>data\<close> or the field is absent or \<open>null\<close>. \<open>data_items\<close> is \<open>Some its\<close>
  exactly when \<open>data.items\<close> is an array (\<open>Array.isArray\<close>); when it is not,
  \<open>items_not_array\<close> tells a value that is present but is no array (an object, a string,
  a number) from an absent one. Only the record operations can tell the two apart.
\<close>

record envelope =
  code :: string
  msg :: string

record 'i api_response = envelope +
  data_items :: "'i list option"
  items_not_array :: bool
  data_total :: "int option"
  next_page_token :: "string option"

section \<open>Chunking and the batch operations (index.ts, lines 733-1137, 1194-1451)\<close>

text \<open>
  The chunking loop \<open>for (let i = 0; i < records.length; i += chunkSize)
  chunks.push(records.slice(i, i + chunkSize))\<close>. With \<open>chunkSize \<le> 0\<close> the source's loop
  never ends, so the result is an option: \<open>None\<close> is "does not return".
\<close>

partial_function (option) chunk_loop ::
  "'a list \<Rightarrow> int \<Rightarrow> int \<Rightarrow> 'a list list \<Rightarrow> 'a list list option" where
  "chunk_loop records chunkSize i chunks =
     (if i < int (length records)
      then chunk_loop records chunkSize (i + chunkSize)
             (chunks @ [js_slice records i (i + chunkSize)])
      else Some chunks)"

text \<open>An entry of the \<open>success\<close> and \<open>failed\<close> lists of the record operations, and an
  input record (its \<open>_id\<close> property, \<open>JUndefined\<close> when absent). Array elements are taken
  to be objects.\<close>

record item =
  item_id :: jsval
  item_success :: jsval
  item_error :: jsval

record input_record =
  rec_id :: jsval

record ('s, 'f) BatchResult =
  success :: "'s list"
  failed :: "'f list"
  successCount :: nat
  failedCount :: nat
  total :: nat

definition failed_entry :: "jsval \<Rightarrow> string \<Rightarrow> item" where
  "failed_entry i e = \<lparr>item_id = i, item_success = JBool False, item_error = JStr e\<rparr>"

text \<open>The message of the \<open>TypeError\<close> thrown when \<open>filter\<close> is called on a value of
  \<open>data.items\<close> that has no such method (the wording is the engine's).\<close>

definition filter_type_error :: string where
  "filter_type_error = ''res.data?.items?.filter is not a function''"

text \<open>
  The body of the \<open>for (const [index, chunk] of chunks.entries())\<close> loop of
  \<open>object.create.recordsWithIterator\<close>, \<open>object.update.recordsWithIterator\<close> and
  \<open>object.delete.recordsWithIterator\<close>. The three bodies are the same text up to: the
  unit call \<open>call\<close>, the test \<open>is_success\<close> on a returned item, the identifier \<open>id_of\<close>
  written into a failed entry, and the word \<open>what\<close> of the fallback message.
  \<open>acc\<close> is \<open>(successItems, failedItems)\<close>.

  After the \<open>forEach\<close>, still inside the \<open>try\<close>, the source builds its log line from
  \<open>res.data?.items?.filter(...).length\<close>, whatever the log level. When \<open>data.items\<close> is
  absent the optional chain gives \<open>undefined\<close>; when it is an array the call returns;
  when it is present and not an array, \<open>filter\<close> is not a function, the call throws, and
  the \<open>catch\<close> marks every item of the chunk as failed with the message of that error.
  The elements of a returned array are taken to be objects.
\<close>

definition records_chunk ::
  "('a list \<Rightarrow> 's \<Rightarrow> (js_error + item api_response) \<times> 's) \<Rightarrow> (item \<Rightarrow> bool) \<Rightarrow> ('a \<Rightarrow> jsval) \<Rightarrow>
   string \<Rightarrow> 'a list \<Rightarrow> item list \<times> item list \<Rightarrow> 's \<Rightarrow> (item list \<times> item list) \<times> 's" where
  "records_chunk call is_success id_of what chunk acc c =
     (case call chunk c of
        (Inr res, c') \<Rightarrow>
          if code res \<noteq> ''0'' then
            ((fst acc,
              snd acc @ map (\<lambda>r. failed_entry (id_of r)
                               (str_or (msg res) (what @ '' failed with code '' @ code res)))
                          chunk), c')
          else (case data_items res of
                  Some its \<Rightarrow>
                    ((fst acc @ filter is_success its,
                      snd acc @ filter (\<lambda>i. \<not> is_success i) its), c')
                | None \<Rightarrow>
                    if items_not_array res
                    then ((fst acc,
                           snd acc @ map (\<lambda>r. failed_entry (id_of r) filter_type_error) chunk),
                          c')
                    else (acc, c'))
      | (Inl error, c') \<Rightarrow>
          ((fst acc, snd acc @ map (\<lambda>r. failed_entry (id_of r) (message error)) chunk), c'))"

fun records_chunks ::
  "('a list \<Rightarrow> 's \<Rightarrow> (js_error + item api_response) \<times> 's) \<Rightarrow> (item \<Rightarrow> bool) \<Rightarrow> ('a \<Rightarrow> jsval) \<Rightarrow>
   string \<Rightarrow> 'a list list \<Rightarrow> item list \<times> item list \<Rightarrow> 's \<Rightarrow> (item list \<times> item list) \<times> 's" where
  "records_chunks call is_success id_of what [] acc c = (acc, c)"
| "records_chunks call is_success id_of what (chunk # rest) acc c =
     (case records_chunk call is_success id_of what chunk acc c of
        (acc', c') \<Rightarrow> records_chunks call is_success id_of what rest acc' c')"

text \<open>Validation, the empty short-circuit, chunking, the loop and the result, shared by
  the three record operations. \<open>records\<close> is \<open>None\<close> when the argument is missing or is
  not an array; \<open>limit\<close> is \<open>None\<close> when the caller gives none (default 100). The text
  of the validation error is Chinese in the source and is given in English here.\<close>

definition records_iterator ::
  "('a list \<Rightarrow> 's \<Rightarrow> (js_error + item api_response) \<times> 's) \<Rightarrow> (item \<Rightarrow> bool) \<Rightarrow> ('a \<Rightarrow> jsval) \<Rightarrow>
   string \<Rightarrow> string \<Rightarrow> 'a list option \<Rightarrow> int option \<Rightarrow> 's \<Rightarrow>
   ((js_error + (item, item) BatchResult) \<times> 's) option" where
  "records_iterator call is_success id_of what param records limit c =
     (case records of
        None \<Rightarrow> Some (Inl (OtherError None (param @ '' must be an array'')), c)
      | Some rs \<Rightarrow>
          if length rs = 0
          then Some (Inr \<lparr>success = [], failed = [], successCount = 0, failedCount = 0,
                          total = 0\<rparr>, c)
          else (case chunk_loop rs (case limit of None \<Rightarrow> 100 | Some l \<Rightarrow> l) 0 [] of
                  None \<Rightarrow> None
                | Some chunks \<Rightarrow>
                    (case records_chunks call is_success id_of what chunks ([], []) c of
                       ((successItems, failedItems), c') \<Rightarrow>
                         Some (Inr \<lparr>success = successItems, failed = failedItems,
                                     successCount = length successItems,
                                     failedCount = length failedItems,
                                     total = length rs\<rparr>, c'))))"

text \<open>\<open>object.create.records\<close>, \<open>object.update.records\<close> and \<open>object.delete.records\<close>;
  the last two run inside the limiter.\<close>

definition create_records ::
  "('b, 'r, 'w) env \<Rightarrow> 'b \<Rightarrow> ('b, 'w) client \<Rightarrow> (js_error + 'r) \<times> ('b, 'w) client" where
  "create_records E records = api_call E records"

definition update_records ::
  "('b, 'r, 'w) env \<Rightarrow> 'b \<Rightarrow> ('b, 'w) client \<Rightarrow> (js_error + 'r) \<times> ('b, 'w) client" where
  "update_records E records = functionLimiter (api_call E records)"

definition delete_records ::
  "('b, 'r, 'w) env \<Rightarrow> 'b \<Rightarrow> ('b, 'w) client \<Rightarrow> (js_error + 'r) \<times> ('b, 'w) client" where
  "delete_records E ids = functionLimiter (api_call E ids)"

text \<open>\<open>object.create.recordsWithIterator\<close>: the unit call goes through the limiter, a
  returned item is a success when \<open>item.success !== false\<close>, and a failed entry carries
  \<open>record._id || 'unknown'\<close>.\<close>

definition create_recordsWithIterator ::
  "(input_record list, item api_response, 'w) env \<Rightarrow> input_record list option \<Rightarrow> int option \<Rightarrow>
   (input_record list, 'w) client \<Rightarrow>
   ((js_error + (item, item) BatchResult) \<times> (input_record list, 'w) client) option" where
  "create_recordsWithIterator E records limit c =
     records_iterator (\<lambda>chunk. functionLimiter (create_records E chunk))
       (\<lambda>i. item_success i \<noteq> JBool False)
       (\<lambda>r. js_or (rec_id r) (JStr ''unknown''))
       ''Creation'' ''records'' records limit c"

text \<open>\<open>object.update.recordsWithIterator\<close>: a returned item is a success when
  \<open>item.success\<close> is truthy.\<close>

definition update_recordsWithIterator ::
  "(input_record list, item api_response, 'w) env \<Rightarrow> input_record list option \<Rightarrow> int option \<Rightarrow>
   (input_record list, 'w) client \<Rightarrow>
   ((js_error + (item, item) BatchResult) \<times> (input_record list, 'w) client) option" where
  "update_recordsWithIterator E records limit c =
     records_iterator (update_records E)
       (\<lambda>i. truthy (item_success i))
       (\<lambda>r. js_or (rec_id r) (JStr ''unknown''))
       ''Update'' ''records'' records limit c"

text \<open>\<open>object.delete.recordsWithIterator\<close>: the input is a list of ids, and a failed
  entry carries the id itself.\<close>

definition delete_recordsWithIterator ::
  "(string list, item api_response, 'w) env \<Rightarrow> string list option \<Rightarrow> int option \<Rightarrow>
   (string list, 'w) client \<Rightarrow>
   ((js_error + (item, item) BatchResult) \<times> (string list, 'w) client) option" where
  "delete_recordsWithIterator E ids limit c =
     records_iterator (delete_records E)
       (\<lambda>i. truthy (item_success i))
       JStr
       ''Delete'' ''ids'' ids limit c"

text \<open>
  \<open>department.batchExchange\<close> and \<open>user.batchExchange\<close>. The two differ only in the
  fields of the request body that are constant over a run, so a request is the chunk of
  ids. The chunk size is the constant 200. \<open>exchange_attempt\<close> is the operation handed to
  \<open>executeWithRetry\<close>: it throws on a code other than \<open>'0'\<close> and returns
  \<open>response.data.data || []\<close>.
\<close>

record 'i exchange_response = envelope +
  exchange_data :: "'i list option"

record exchange_failure =
  failed_id :: string
  failed_error :: string

definition exchange_attempt ::
  "(string list, 'i exchange_response, 'w) env \<Rightarrow> string list \<Rightarrow> (string list, 'w) client \<Rightarrow>
   (js_error + 'i list) \<times> (string list, 'w) client" where
  "exchange_attempt E chunk =
     functionLimiter (\<lambda>c.
       case ensureTokenValid E c of
         (Inl error, c') \<Rightarrow> (Inl error, c')
       | (Inr u, c') \<Rightarrow>
           (case axios_api E chunk c' of
              (Inl error, c'') \<Rightarrow> (Inl error, c'')
            | (Inr response, c'') \<Rightarrow>
                if code response \<noteq> ''0''
                then (Inl (OtherError None
                        (str_or (msg response) (''Exchange failed with code '' @ code response))),
                      c'')
                else (Inr (case exchange_data response of Some d \<Rightarrow> d | None \<Rightarrow> []), c'')))"

text \<open>The loop body: \<open>errorMsg\<close> is the message of the thrown value, and \<open>'undefined'\<close>
  when the executor threw \<open>undefined\<close>.\<close>

definition exchange_chunk ::
  "(string list, 'i exchange_response, 'w) env \<Rightarrow> RetryOptions option \<Rightarrow> string list \<Rightarrow>
   'i list \<times> exchange_failure list \<Rightarrow> (string list, 'w) client \<Rightarrow>
   ('i list \<times> exchange_failure list) \<times> (string list, 'w) client" where
  "exchange_chunk E retryOptions chunk acc c =
     (case executeWithRetry (sleep_client E) (exchange_attempt E chunk)
             (case retryOptions of None \<Rightarrow> no_options | Some ro \<Rightarrow> ro) c of
        (Inr res, c') \<Rightarrow> ((fst acc @ res, snd acc), c')
      | (Inl error, c') \<Rightarrow>
          ((fst acc,
            snd acc @ map (\<lambda>i. \<lparr>failed_id = i,
                                 failed_error = (case error of Some e \<Rightarrow> message e
                                                 | None \<Rightarrow> ''undefined'')\<rparr>) chunk), c'))"

fun exchange_chunks ::
  "(string list, 'i exchange_response, 'w) env \<Rightarrow> RetryOptions option \<Rightarrow> string list list \<Rightarrow>
   'i list \<times> exchange_failure list \<Rightarrow> (string list, 'w) client \<Rightarrow>
   ('i list \<times> exchange_failure list) \<times> (string list, 'w) client" where
  "exchange_chunks E retryOptions [] acc c = (acc, c)"
| "exchange_chunks E retryOptions (chunk # rest) acc c =
     (case exchange_chunk E retryOptions chunk acc c of
        (acc', c') \<Rightarrow> exchange_chunks E retryOptions rest acc' c')"

definition batchExchange ::
  "string \<Rightarrow> (string list, 'i exchange_response, 'w) env \<Rightarrow> string list option \<Rightarrow>
   RetryOptions option \<Rightarrow> (string list, 'w) client \<Rightarrow>
   ((js_error + ('i, exchange_failure) BatchResult) \<times> (string list, 'w) client) option" where
  "batchExchange param E ids retryOptions c =
     (case ids of
        None \<Rightarrow> Some (Inl (OtherError None (param @ '' must be an array'')), c)
      | Some xs \<Rightarrow>
          if length xs = 0
          then Some (Inr \<lparr>success = [], failed = [], successCount = 0, failedCount = 0,
                          total = 0\<rparr>, c)
          else (case chunk_loop xs 200 0 [] of
                  None \<Rightarrow> None
                | Some chunks \<Rightarrow>
                    (case exchange_chunks E retryOptions chunks ([], []) c of
                       ((successResults, failedResults), c') \<Rightarrow>
                         Some (Inr \<lparr>success = successResults, failed = failedResults,
                                     successCount = length successResults,
                                     failedCount = length failedResults,
                                     total = length xs\<rparr>, c'))))"

definition department_batchExchange ::
  "(string list, 'i exchange_response, 'w) env \<Rightarrow> string list option \<Rightarrow>
   RetryOptions option \<Rightarrow> (string list, 'w) client \<Rightarrow>
   ((js_error + ('i, exchange_failure) BatchResult) \<times> (string list, 'w) client) option" where
  "department_batchExchange E department_ids retryOptions c =
     batchExchange ''department_ids'' E department_ids retryOptions c"

definition user_batchExchange ::
  "(string list, 'i exchange_response, 'w) env \<Rightarrow> string list option \<Rightarrow>
   RetryOptions option \<Rightarrow> (string list, 'w) client \<Rightarrow>
   ((js_error + ('i, exchange_failure) BatchResult) \<times> (string list, 'w) client) option" where
  "user_batchExchange E user_ids retryOptions c =
     batchExchange ''user_ids'' E user_ids retryOptions c"

section \<open>A batch run in the spec's terms\<close>

text \<open>
  The three definitions of this section are not translations of the source: they
  describe a run the way the spec does (one call per chunk, in order; a chunk call
  either fails as a whole or returns per-item outcomes), so that the results of the
  operations above can be compared with that description.

  \<open>chunk_calls call chunks c\<close> lists, for a run that starts in state \<open>c\<close>, every chunk
  with what its call returned or threw, each call starting in the state the previous
  one left.
\<close>

fun chunk_calls :: "('a list \<Rightarrow> 's \<Rightarrow> 'r \<times> 's) \<Rightarrow> 'a list list \<Rightarrow> 's \<Rightarrow> ('a list \<times> 'r) list" where
  "chunk_calls call [] c = []"
| "chunk_calls call (chunk # rest) c =
     (case call chunk c of (reply, c') \<Rightarrow> (chunk, reply) # chunk_calls call rest c')"

text \<open>\<open>spec_chunk_failure what reply\<close> is the error message of a chunk call that failed
  as a whole: it threw, or it returned a top-level code other than \<open>'0'\<close> (the message
  returned, or the fallback text), or its \<open>data.items\<close> could not be read as a list.
  \<open>None\<close> when the call did not fail.\<close>

definition spec_chunk_failure :: "string \<Rightarrow> js_error + 'i api_response \<Rightarrow> string option" where
  "spec_chunk_failure what reply =
     (case reply of
        Inl error \<Rightarrow> Some (message error)
      | Inr res \<Rightarrow>
          if code res \<noteq> ''0''
          then Some (str_or (msg res) (what @ '' failed with code '' @ code res))
          else if data_items res = None \<and> items_not_array res then Some filter_type_error
          else None)"

text \<open>\<open>spec_returned_items reply\<close> are the per-item outcomes a chunk call returned; none
  when the call failed or listed no items.\<close>

definition spec_returned_items :: "js_error + 'i api_response \<Rightarrow> 'i list" where
  "spec_returned_items reply =
     (case reply of
        Inl error \<Rightarrow> []
      | Inr res \<Rightarrow>
          if code res \<noteq> ''0'' then []
          else (case data_items res of Some its \<Rightarrow> its | None \<Rightarrow> []))"

section \<open>Offset pagination (index.ts, lines 296-451, 1498-1573, 1821-2022)\<close>

text \<open>A request of a list endpoint (the optional filter is passed through unread and is
  left out) and the flattened value \<open>{code, items, total, msg, has_more}\<close> that
  \<open>object.list\<close> returns.\<close>

record list_request =
  req_offset :: int
  req_limit :: int

record 'i list_page = envelope +
  items :: "'i list"
  list_total :: int
  has_more :: bool

definition object_list ::
  "(list_request, 'i api_response, 'w) env \<Rightarrow> int \<Rightarrow> int \<Rightarrow> (list_request, 'w) client \<Rightarrow>
   (js_error + 'i list_page) \<times> (list_request, 'w) client" where
  "object_list E offset limit c =
     (case api_call E \<lparr>req_offset = offset, req_limit = limit\<rparr> c of
        (Inl error, c') \<Rightarrow> (Inl error, c')
      | (Inr res, c') \<Rightarrow>
          (Inr \<lparr>code = code res, msg = msg res,
                 items = (case data_items res of Some its \<Rightarrow> its | None \<Rightarrow> []),
                 list_total = (case data_total res of Some t \<Rightarrow> t | None \<Rightarrow> 0),
                 has_more = (offset + limit < (case data_total res of Some t \<Rightarrow> t | None \<Rightarrow> 0))\<rparr>,
           c'))"

record FailedPage =
  fp_offset :: int
  fp_limit :: int
  fp_code :: string
  fp_msg :: string

text \<open>
  The \<open>while (hasMore)\<close> loop of \<open>object.listWithIterator\<close>, on its local variables
  (\<open>total'\<close> and \<open>failed'\<close> are the source's \<open>total\<close> and \<open>failed\<close>). The first branch is
  the non-success code with its \<open>continue\<close>, the second the successful page, the third
  the \<open>catch\<close>. The loop may run forever; \<open>None\<close> is "does not return". It returns the
  final values of the variables.
\<close>

partial_function (option) object_list_loop ::
  "(list_request, 'i api_response, 'w) env \<Rightarrow> int \<Rightarrow> 'i list \<Rightarrow> int \<Rightarrow> int \<Rightarrow> bool \<Rightarrow> int \<Rightarrow>
   FailedPage list \<Rightarrow> (list_request, 'w) client \<Rightarrow>
   (('i list \<times> int \<times> int \<times> bool \<times> int \<times> FailedPage list) \<times> (list_request, 'w) client) option"
  where
  "object_list_loop E limit results offset total' hasMore page failed' c =
     (if hasMore then
        (case object_list E offset limit c of
           (Inr res, c') \<Rightarrow>
             if code res \<noteq> ''0'' then
               object_list_loop E limit results (offset + limit) total' hasMore (page + 1)
                 (failed' @ [\<lparr>fp_offset = offset, fp_limit = limit, fp_code = code res,
                              fp_msg = str_or (msg res) (''Query failed with code '' @ code res)\<rparr>])
                 c'
             else
               object_list_loop E limit (results @ items res) (offset + limit) (list_total res)
                 (has_more res = True) (page + 1) failed' c'
         | (Inl error, c') \<Rightarrow>
             object_list_loop E limit results (offset + limit) total'
               (if total' = 0 then False else offset + limit < total') (page + 1)
               (failed' @ [\<lparr>fp_offset = offset, fp_limit = limit, fp_code = ''1'',
                            fp_msg = message error\<rparr>])
               c')
      else Some ((results, offset, total', hasMore, page, failed'), c))"

record 'i list_result =
  result_code :: string
  result_msg :: string
  result_items :: "'i list"
  result_total :: int
  result_failed :: "FailedPage list option"

definition object_listWithIterator ::
  "(list_request, 'i api_response, 'w) env \<Rightarrow> int option \<Rightarrow> (list_request, 'w) client \<Rightarrow>
   ('i list_result \<times> (list_request, 'w) client) option" where
  "object_listWithIterator E limit c =
     (case object_list_loop E (case limit of None \<Rightarrow> 50 | Some l \<Rightarrow> l) [] 0 0 True 0 [] c of
        None \<Rightarrow> None
      | Some ((results, offset, total', hasMore, page, failed'), c') \<Rightarrow>
          Some (\<lparr>result_code = string_of_nat (length failed'),
                  result_msg = (if length failed' = 0 then ''Success''
                                else ''Completed with '' @ string_of_nat (length failed')
                                       @ '' failed page(s)''),
                  result_items = results,
                  result_total = total',
                  result_failed = (if length failed' > 0 then Some failed' else None)\<rparr>, c'))"

text \<open>
  The \<open>do ... while (results.length < total)\<close> loop of \<open>page.listWithIterator\<close>,
  \<open>global.options.listWithIterator\<close> and \<open>global.variables.listWithIterator\<close> (the same
  text up to the unit call \<open>fetch\<close>). A thrown fetch or a non-success code leaves the
  function as an exception. The result is \<open>{total, items}\<close>.
\<close>

partial_function (option) page_loop ::
  "(list_request \<Rightarrow> 's \<Rightarrow> (js_error + 'i api_response) \<times> 's) \<Rightarrow> int \<Rightarrow> 'i list \<Rightarrow> int \<Rightarrow> int \<Rightarrow>
   int \<Rightarrow> 's \<Rightarrow> ((js_error + int \<times> 'i list) \<times> 's) option" where
  "page_loop fetch limit results offset total' page c =
     (case functionLimiter (fetch \<lparr>req_offset = offset, req_limit = limit\<rparr>) c of
        (Inl error, c') \<Rightarrow> Some (Inl error, c')
      | (Inr res, c') \<Rightarrow>
          if code res \<noteq> ''0''
          then Some (Inl (OtherError None
                       (str_or (msg res) (''Fetch failed with code '' @ code res))), c')
          else if int (length (results @ (case data_items res of Some its \<Rightarrow> its | None \<Rightarrow> [])))
                    < (if page + 1 = 1 then (case data_total res of Some t \<Rightarrow> t | None \<Rightarrow> 0)
                       else total')
          then page_loop fetch limit
                 (results @ (case data_items res of Some its \<Rightarrow> its | None \<Rightarrow> []))
                 (offset + limit)
                 (if page + 1 = 1 then (case data_total res of Some t \<Rightarrow> t | None \<Rightarrow> 0)
                  else total')
                 (page + 1) c'
          else Some (Inr ((if page + 1 = 1
                           then (case data_total res of Some t \<Rightarrow> t | None \<Rightarrow> 0)
                           else total'),
                          results @ (case data_items res of Some its \<Rightarrow> its | None \<Rightarrow> [])),
                     c'))"

text \<open>\<open>params?.limit || 100\<close>: an absent limit and the limit 0 both give 100.\<close>

definition limit_or_100 :: "int option \<Rightarrow> int" where
  "limit_or_100 limit = (case limit of None \<Rightarrow> 100 | Some l \<Rightarrow> if l = 0 then 100 else l)"

definition page_listWithIterator ::
  "(list_request, 'i api_response, 'w) env \<Rightarrow> int option \<Rightarrow> (list_request, 'w) client \<Rightarrow>
   ((js_error + int \<times> 'i list) \<times> (list_request, 'w) client) option" where
  "page_listWithIterator E limit c = page_loop (api_call E) (limit_or_100 limit) [] 0 0 0 c"

definition global_options_listWithIterator ::
  "(list_request, 'i api_response, 'w) env \<Rightarrow> int option \<Rightarrow> (list_request, 'w) client \<Rightarrow>
   ((js_error + int \<times> 'i list) \<times> (list_request, 'w) client) option" where
  "global_options_listWithIterator E limit c =
     page_loop (api_call E) (limit_or_100 limit) [] 0 0 0 c"

definition global_variables_listWithIterator ::
  "(list_request, 'i api_response, 'w) env \<Rightarrow> int option \<Rightarrow> (list_request, 'w) client \<Rightarrow>
   ((js_error + int \<times> 'i list) \<times> (list_request, 'w) client) option" where
  "global_variables_listWithIterator E limit c =
     page_loop (api_call E) (limit_or_100 limit) [] 0 0 0 c"

section \<open>Cursor pagination (index.ts, lines 532-618)\<close>







section \<open>Concrete environments for the examples\<close>

text \<open>
  A scripted outside world: its state is the number of replies of the operation's
  endpoint given so far, the \<open>k\<close>-th request (from 0) is answered by \<open>script k\<close>, the
  clock stands at 0 and the credential endpoint always issues the token \<open>t1\<close>, valid
  for two hours.
\<close>

definition token_ok :: TokenResponse where
  "token_ok = \<lparr>token_code = ''0'', token_msg = [], data_accessToken = ''t1'',
                data_expireTime = 7200000\<rparr>"

definition scripted_env :: "(nat \<Rightarrow> js_error + 'r) \<Rightarrow> ('b, 'r, nat) env" where
  "scripted_env script =
     \<lparr>clock = (\<lambda>w. 0),
      token_endpoint = (\<lambda>w. (Inr token_ok, w)),
      api_endpoint = (\<lambda>req w. (script w, Suc w)),
      pause = (\<lambda>d w. w)\<rparr>"

definition fresh_client :: "('b, nat) client" where
  "fresh_client = \<lparr>disableTokenCache = False, accessToken = None, expireTime = None,
                    trace = [], remote = 0\<rparr>"

definition holding :: "string \<Rightarrow> int \<Rightarrow> ('b, nat) client" where
  "holding tok t = \<lparr>disableTokenCache = False, accessToken = Some tok, expireTime = Some t,
                    trace = [], remote = 0\<rparr>"

text \<open>Three returned items: one without a \<open>success\<close> property, one with \<open>true\<close>, one
  with \<open>false\<close>; and the reply that enumerates them.\<close>

definition item_absent :: item where
  "item_absent = \<lparr>item_id = JStr ''a'', item_success = JUndefined, item_error = JUndefined\<rparr>"

definition item_true :: item where
  "item_true = \<lparr>item_id = JStr ''b'', item_success = JBool True, item_error = JUndefined\<rparr>"

definition item_false :: item where
  "item_false = \<lparr>item_id = JStr ''c'', item_success = JBool False, item_error = JStr ''bad''\<rparr>"

definition reply_items :: "'i list \<Rightarrow> 'i api_response" where
  "reply_items its = \<lparr>code = ''0'', msg = [], data_items = Some its, items_not_array = False,
                        data_total = None,
                        next_page_token = None\<rparr>"

text \<open>A server whose first reply lists an item without \<open>success\<close> and one with \<open>true\<close>,
  and whose later replies list one with \<open>false\<close> and one without the property.\<close>

definition mixed_replies :: "nat \<Rightarrow> js_error + item api_response" where
  "mixed_replies k = (if k = 0 then Inr (reply_items [item_absent, item_true])
                      else Inr (reply_items [item_false, item_absent]))"

text \<open>A server whose first reply lists an accepted and a refused item and whose later
  requests fail with an HTTP 503; and one whose replies have the code \<open>'0'\<close> and an
  \<open>items\<close> that is not an array.\<close>

definition mixed_failures :: "nat \<Rightarrow> js_error + item api_response" where
  "mixed_failures k = (if k = 0 then Inr (reply_items [item_true, item_false])
                       else Inl (AxiosError (Some ''ERR_BAD_RESPONSE'') (Some 503)
                                   ''Service Unavailable''))"

definition not_an_array :: "nat \<Rightarrow> js_error + item api_response" where
  "not_an_array k = Inr \<lparr>code = ''0'', msg = [], data_items = None, items_not_array = True,
                         data_total = None, next_page_token = None\<rparr>"

definition three_records :: "input_record list" where
  "three_records = [\<lparr>rec_id = JStr ''a''\<rparr>, \<lparr>rec_id = JStr ''b''\<rparr>, \<lparr>rec_id = JStr ''c''\<rparr>]"

text \<open>Servers that answer every chunk with one outcome per submitted item.\<close>

definition echo_env :: "('a \<Rightarrow> 'i) \<Rightarrow> ('a list, 'i api_response, nat) env" where
  "echo_env outcome =
     \<lparr>clock = (\<lambda>w. 0),
      token_endpoint = (\<lambda>w. (Inr token_ok, w)),
      api_endpoint = (\<lambda>chunk w. (Inr (reply_items (map outcome chunk)), Suc w)),
      pause = (\<lambda>d w. w)\<rparr>"

definition reply_mappings :: "'i list \<Rightarrow> 'i exchange_response" where
  "reply_mappings ms = \<lparr>code = ''0'', msg = [], exchange_data = Some ms\<rparr>"

definition echo_exchange_env :: "(string \<Rightarrow> 'i) \<Rightarrow> (string list, 'i exchange_response, nat) env" where
  "echo_exchange_env mapping =
     \<lparr>clock = (\<lambda>w. 0),
      token_endpoint = (\<lambda>w. (Inr token_ok, w)),
      api_endpoint = (\<lambda>chunk w. (Inr (reply_mappings (map mapping chunk)), Suc w)),
      pause = (\<lambda>d w. w)\<rparr>"

text \<open>An exchange server that answers every request with the code \<open>'1'\<close>.\<close>

definition exchange_denied :: "nat \<Rightarrow> js_error + string exchange_response" where
  "exchange_denied k = Inr \<lparr>code = ''1'', msg = ''denied'', exchange_data = None\<rparr>"

definition accepted :: "input_record \<Rightarrow> item" where
  "accepted r = \<lparr>item_id = rec_id r, item_success = JBool True, item_error = JUndefined\<rparr>"

definition deleted :: "string \<Rightarrow> item" where
  "deleted i = \<lparr>item_id = JStr i, item_success = JBool True, item_error = JUndefined\<rparr>"



text \<open>Servers for the offset iterators: one that answers every request with the code
  \<open>'1'\<close>; one that reports a total of 3 and returns one item per page; one that
  reports a total of 2 and returns both items on every page.\<close>

definition always_denied :: "nat \<Rightarrow> js_error + nat api_response" where
  "always_denied k = Inr \<lparr>code = ''1'', msg = ''denied'', data_items = None, items_not_array = False,
                            data_total = None,
                            next_page_token = None\<rparr>"

definition short_pages :: "nat \<Rightarrow> js_error + nat api_response" where
  "short_pages k = Inr \<lparr>code = ''0'', msg = [], data_items = Some [k], items_not_array = False,
                          data_total = Some 3,
                          next_page_token = None\<rparr>"

definition one_page :: "nat \<Rightarrow> js_error + nat api_response" where
  "one_page k = Inr \<lparr>code = ''0'', msg = [], data_items = Some [1, 2], items_not_array = False,
                       data_total = Some 2,
                       next_page_token = None\<rparr>"

text \<open>A server whose first page is the first of \<open>short_pages\<close> and that answers every
  later request with the code \<open>'1'\<close>.\<close>

definition denied_second_page :: "nat \<Rightarrow> js_error + nat api_response" where
  "denied_second_page k = (if k = 0 then short_pages 0 else always_denied k)"

text \<open>For the retry executor: a state that is the log of what happened, an operation
  that logs an attempt and throws \<open>e\<close>, a timer that logs its delay, and three thrown
  values (an HTTP 503, an HTTP 404, a connection reset).\<close>

datatype retry_event = Attempt | Delay real

definition log_sleep :: "real \<Rightarrow> retry_event list \<Rightarrow> retry_event list" where
  "log_sleep d s = s @ [Delay d]"

definition failing_with ::
  "js_error \<Rightarrow> retry_event list \<Rightarrow> (js_error + unit) \<times> retry_event list" where
  "failing_with e s = (Inl e, s @ [Attempt])"

definition error_503 :: js_error where
  "error_503 = AxiosError (Some ''ERR_BAD_RESPONSE'') (Some 503) ''Service Unavailable''"

definition error_404 :: js_error where
  "error_404 = AxiosError (Some ''ERR_BAD_REQUEST'') (Some 404) ''Not Found''"

definition error_reset :: js_error where
  "error_reset = OtherError (Some ''ECONNRESET'') ''socket hang up''"

section \<open>Theorems\<close>

subsection \<open>Unfolding rules for concrete runs\<close>

lemmas unit_call_simps =
  functionLimiter_def create_records_def update_records_def delete_records_def api_call_def
  ensureTokenValid_def getAccessToken_def axios_token_def axios_api_def scripted_env_def
  fresh_client_def token_ok_def

lemmas loop_simps = records_iterator_def records_chunk_def batchExchange_def exchange_chunk_def
  exchange_attempt_def executeWithRetry_def no_options_def sleep_client_def

lemmas list_call_simps = object_list_def api_call_def ensureTokenValid_def axios_api_def
  scripted_env_def holding_def functionLimiter_def

subsection \<open>The retry executor\<close>

lemma retry_step_transient:
  assumes "attempt < maxR" and "fn s = (Inl e, s')" and "isRetryableError e"
  shows "retry_loop sleep fn maxR iD mD mult attempt lastError s =
         retry_loop sleep fn maxR iD mD mult (attempt + 1) (Some e)
           (sleep (min (iD * mult ^ nat attempt) mD) s')"
  using assms by (subst retry_loop.simps) simp

lemma retry_step_permanent:
  assumes "attempt < maxR" and "fn s = (Inl e, s')" and "\<not> isRetryableError e"
  shows "retry_loop sleep fn maxR iD mD mult attempt lastError s = (Inl (Some e), s')"
  using assms by (subst retry_loop.simps) simp

lemma retry_step_final:
  assumes "fn s = (Inl e, s')"
  shows "retry_loop sleep fn maxR iD mD mult maxR lastError s = (Inl (Some e), s')"
  using assms by (subst retry_loop.simps) simp

text \<open>
  Claim C2. Under the default policy (no option given: \<open>maxRetries = 3\<close>,
  \<open>initialDelay = 1000\<close>, \<open>backoffMultiplier = 2\<close>, \<open>maxDelay = 10000\<close>), for an operation
  every attempt of which throws a retryable error, a run of the executor is: attempt,
  delay 1000, attempt, delay 2000, attempt, delay 4000, attempt, and no more; what it
  throws is the error of the fourth attempt, and the final state is the state that
  attempt left. The delay before retry \<open>k\<close> is \<open>min (1000 * 2 ^ k) 10000\<close>.
\<close>

theorem default_policy_four_attempts:
  assumes "\<forall>s. \<exists>e s'. fn s = (Inl e, s') \<and> isRetryableError e"
  shows "\<exists>e1 s1 e2 s2 e3 s3 e4 s4.
           fn s0 = (Inl e1, s1)
         \<and> fn (sleep 1000 s1) = (Inl e2, s2)
         \<and> fn (sleep 2000 s2) = (Inl e3, s3)
         \<and> fn (sleep 4000 s3) = (Inl e4, s4)
         \<and> executeWithRetry sleep fn no_options s0 = (Inl (Some e4), s4)"
proof -
  from assms obtain e1 s1 where 1: "fn s0 = (Inl e1, s1)" "isRetryableError e1" by blast
  from assms obtain e2 s2 where 2: "fn (sleep 1000 s1) = (Inl e2, s2)" "isRetryableError e2" by blast
  from assms obtain e3 s3 where 3: "fn (sleep 2000 s2) = (Inl e3, s3)" "isRetryableError e3" by blast
  from assms obtain e4 s4 where 4: "fn (sleep 4000 s3) = (Inl e4, s4)" "isRetryableError e4" by blast
  have "executeWithRetry sleep fn no_options s0 = retry_loop sleep fn 3 1000 10000 2 0 None s0"
    by (simp add: executeWithRetry_def no_options_def)
  also have "\<dots> = retry_loop sleep fn 3 1000 10000 2 1 (Some e1) (sleep 1000 s1)"
    using retry_step_transient[of 0 3 fn s0 e1 s1 sleep 1000 10000 2 None] 1 by simp
  also have "\<dots> = retry_loop sleep fn 3 1000 10000 2 2 (Some e2) (sleep 2000 s2)"
    using retry_step_transient[of 1 3 fn "sleep 1000 s1" e2 s2 sleep 1000 10000 2 "Some e1"] 2 by simp
  also have "\<dots> = retry_loop sleep fn 3 1000 10000 2 3 (Some e3) (sleep 4000 s3)"
    using retry_step_transient[of 2 3 fn "sleep 2000 s2" e3 s3 sleep 1000 10000 2 "Some e2"] 3 by simp
  also have "\<dots> = (Inl (Some e4), s4)"
    using 4(1) by (rule retry_step_final)
  finally show ?thesis using 1 2 3 4 by blast
qed

text \<open>On the logging operation that always throws an HTTP 503, the log of the run.\<close>

theorem default_policy_four_attempts_witness:
  "executeWithRetry log_sleep (failing_with error_503) no_options []
     = (Inl (Some error_503),
        [Attempt, Delay 1000, Attempt, Delay 2000, Attempt, Delay 4000, Attempt])"
proof -
  have "\<forall>s. \<exists>e s'. failing_with error_503 s = (Inl e, s') \<and> isRetryableError e"
    by (simp add: failing_with_def error_503_def isRetryableError_def)
  from default_policy_four_attempts[OF this, of "[]" log_sleep]
  show ?thesis by (simp add: failing_with_def[abs_def] log_sleep_def)
qed

text \<open>
  Claim C4. Let an attempt that is not the last (\<open>attempt < maxRetries\<close>) throw \<open>e\<close>.
  If \<open>e\<close> is transient, that is, no response was received (its code is a connection
  reset, a timeout or a DNS failure, or it is an axios error without a response), or
  the response status is at least 500, or it is 429, then the executor sleeps
  \<open>min (initialDelay * backoffMultiplier ^ attempt) maxDelay\<close> and goes on with the next
  attempt. Any other failure (a thrown value that is not an axios error, or a response
  with a status below 500 other than 429) is thrown at once: the state is the one the
  failed attempt left, with no delay and no further attempt. The two cases are
  exhaustive; a thrown value is classed by its network code first, as the source does.
\<close>

theorem retry_classification:
  assumes "attempt < maxR" and "fn s = (Inl e, s')"
  shows "(err_code e \<in> {Some ''ECONNRESET'', Some ''ETIMEDOUT'', Some ''ENOTFOUND''}
          \<or> (\<exists>c m. e = AxiosError c None m)
          \<or> (\<exists>c status m. e = AxiosError c (Some status) m \<and> (status \<ge> 500 \<or> status = 429))
        \<longrightarrow> retry_loop sleep fn maxR iD mD mult attempt lastError s =
              retry_loop sleep fn maxR iD mD mult (attempt + 1) (Some e)
                (sleep (min (iD * mult ^ nat attempt) mD) s'))
       \<and> (err_code e \<notin> {Some ''ECONNRESET'', Some ''ETIMEDOUT'', Some ''ENOTFOUND''}
          \<and> ((\<exists>c m. e = OtherError c m)
              \<or> (\<exists>c status m. e = AxiosError c (Some status) m \<and> status < 500 \<and> status \<noteq> 429))
        \<longrightarrow> retry_loop sleep fn maxR iD mD mult attempt lastError s = (Inl (Some e), s'))"
proof (intro conjI impI)
  assume "err_code e \<in> {Some ''ECONNRESET'', Some ''ETIMEDOUT'', Some ''ENOTFOUND''}
          \<or> (\<exists>c m. e = AxiosError c None m)
          \<or> (\<exists>c status m. e = AxiosError c (Some status) m \<and> (status \<ge> 500 \<or> status = 429))"
  then have "isRetryableError e"
    by (auto simp: isRetryableError_def)
  with assms show "retry_loop sleep fn maxR iD mD mult attempt lastError s =
              retry_loop sleep fn maxR iD mD mult (attempt + 1) (Some e)
                (sleep (min (iD * mult ^ nat attempt) mD) s')"
    by (rule retry_step_transient)
next
  assume "err_code e \<notin> {Some ''ECONNRESET'', Some ''ETIMEDOUT'', Some ''ENOTFOUND''}
          \<and> ((\<exists>c m. e = OtherError c m)
              \<or> (\<exists>c status m. e = AxiosError c (Some status) m \<and> status < 500 \<and> status \<noteq> 429))"
  then have "\<not> isRetryableError e"
    by (auto simp: isRetryableError_def)
  with assms show "retry_loop sleep fn maxR iD mD mult attempt lastError s = (Inl (Some e), s')"
    by (rule retry_step_permanent)
qed

text \<open>An HTTP 404 on the first attempt ends the run after one attempt and no delay; a
  connection reset goes on to attempt 1 after a delay of 1000.\<close>

theorem retry_classification_witness:
  "retry_loop log_sleep (failing_with error_404) 3 1000 10000 2 0 None []
     = (Inl (Some error_404), [Attempt])
   \<and> retry_loop log_sleep (failing_with error_reset) 3 1000 10000 2 0 None []
     = retry_loop log_sleep (failing_with error_reset) 3 1000 10000 2 1 (Some error_reset)
         [Attempt, Delay 1000]
   \<and> executeWithRetry log_sleep (failing_with error_404) no_options [] = (Inl (Some error_404), [Attempt])"
proof -
  have a: "(0::int) < 3" by simp
  have f4: "failing_with error_404 [] = (Inl error_404, [Attempt])"
    and fr: "failing_with error_reset [] = (Inl error_reset, [Attempt])"
    by (simp_all add: failing_with_def)
  have "retry_loop log_sleep (failing_with error_404) 3 1000 10000 2 0 None []
     = (Inl (Some error_404), [Attempt])"
    using retry_classification[where fn = "failing_with error_404" and s = "[]", OF a f4,
            of log_sleep 1000 10000 2 None]
    by (simp add: error_404_def)
  moreover have "retry_loop log_sleep (failing_with error_reset) 3 1000 10000 2 0 None []
     = retry_loop log_sleep (failing_with error_reset) 3 1000 10000 2 1 (Some error_reset)
         [Attempt, Delay 1000]"
    using retry_classification[where fn = "failing_with error_reset" and s = "[]", OF a fr,
            of log_sleep 1000 10000 2 None]
    by (simp add: error_reset_def log_sleep_def)
  ultimately show ?thesis by (simp add: executeWithRetry_def no_options_def)
qed


subsection \<open>Chunking\<close>

lemma ceil_div_step: "0 < cs \<Longrightarrow> (m + cs - 1) div cs = (m - 1) div cs + 1" for m cs :: int
  using div_add_self2[of cs "m - 1"] by (simp add: algebra_simps)

lemma ceil_div_int:
  fixes n c :: int
  assumes "0 < c"
  shows "\<lceil>real_of_int n / real_of_int c\<rceil> = (n + c - 1) div c"
proof -
  define q where "q = (n + c - 1) div c"
  define r where "r = (n + c - 1) mod c"
  have eq: "n + c - 1 = c * q + r" unfolding q_def r_def by simp
  have r: "0 \<le> r" "r < c" using assms unfolding r_def by simp_all
  have e1: "(q - 1) * c = c * q - c" and e2: "q * c = c * q" by (simp_all add: algebra_simps)
  have lo: "(q - 1) * c < n" using eq r e1 by linarith
  have hi: "n \<le> q * c" using eq r e2 by linarith
  have "\<lceil>real_of_int n / real_of_int c\<rceil> = q"
  proof (rule ceiling_unique)
    have "real_of_int ((q - 1) * c) < real_of_int n" using lo by (simp only: of_int_less_iff)
    then show "real_of_int q - 1 < real_of_int n / real_of_int c"
      using assms by (simp add: pos_less_divide_eq)
    have "real_of_int n \<le> real_of_int (q * c)" using hi by (simp only: of_int_le_iff)
    then show "real_of_int n / real_of_int c \<le> real_of_int q"
      using assms by (simp add: pos_divide_le_eq)
  qed
  then show ?thesis unfolding q_def .
qed

lemma js_slice_nonneg:
  "0 \<le> i \<Longrightarrow> 0 \<le> d \<Longrightarrow> js_slice xs i (i + d) = take (nat d) (drop (nat i) xs)"
  unfolding js_slice_def Let_def
  by (cases "i + d \<le> int (length xs)") (auto simp: min_def nat_diff_distrib')

text \<open>With a positive chunk size the loop returns, from any index \<open>i \<ge> 0\<close> and with any
  chunks \<open>acc\<close> pushed so far: it appends a partition of the rest of the array.\<close>

lemma chunk_loop_pos:
  assumes "0 < cs"
  shows "0 \<le> i \<Longrightarrow> \<exists>cks. chunk_loop xs cs i acc = Some (acc @ cks)
      \<and> concat cks = drop (nat i) xs
      \<and> int (length cks) = (int (length (drop (nat i) xs)) + cs - 1) div cs
      \<and> (\<forall>c \<in> set cks. c \<noteq> [] \<and> int (length c) \<le> cs)
      \<and> (\<forall>j. Suc j < length cks \<longrightarrow> int (length (cks ! j)) = cs)"
proof (induction "nat (int (length xs) - i)" arbitrary: i acc rule: less_induct)
  case less
  show ?case
  proof (cases "i < int (length xs)")
    case False
    then have "chunk_loop xs cs i acc = Some acc"
      by (subst chunk_loop.simps) simp
    moreover from False have "drop (nat i) xs = []" by simp
    ultimately show ?thesis using assms
      by (intro exI[of _ "[]"]) (simp add: div_pos_pos_trivial)
  next
    case True
    let ?c = "js_slice xs i (i + cs)"
    have c: "?c = take (nat cs) (drop (nat i) xs)"
      using less.prems assms by (simp add: js_slice_nonneg)
    have lt: "nat (int (length xs) - (i + cs)) < nat (int (length xs) - i)"
      using True assms by linarith
    from less.hyps[OF lt, of "acc @ [?c]"] less.prems assms
    obtain cks where cks: "chunk_loop xs cs (i + cs) (acc @ [?c]) = Some ((acc @ [?c]) @ cks)"
      "concat cks = drop (nat (i + cs)) xs"
      "int (length cks) = (int (length (drop (nat (i + cs)) xs)) + cs - 1) div cs"
      "\<forall>c \<in> set cks. c \<noteq> [] \<and> int (length c) \<le> cs"
      "\<forall>j. Suc j < length cks \<longrightarrow> int (length (cks ! j)) = cs"
      by (metis add_nonneg_nonneg less_imp_le)
    have unfold: "chunk_loop xs cs i acc = Some (acc @ (?c # cks))"
      using True cks(1) by (subst chunk_loop.simps) simp
    have nat_add: "nat (i + cs) = nat i + nat cs"
      using less.prems assms by (simp add: nat_add_distrib)
    have cat: "concat (?c # cks) = drop (nat i) xs"
      using cks(2) by (simp add: c nat_add add.commute[of "nat i"] flip: drop_drop)
    have ne: "?c \<noteq> []" using True less.prems assms by (simp add: c)
    have le: "int (length ?c) \<le> cs" using assms by (simp add: c)
    have len: "int (length (?c # cks)) = (int (length (drop (nat i) xs)) + cs - 1) div cs"
    proof -
      let ?m = "int (length xs) - i"
      have m: "int (length (drop (nat i) xs)) = ?m" using True less.prems by simp
      have m': "int (length (drop (nat (i + cs)) xs)) = max 0 (?m - cs)"
        using True less.prems assms by (simp add: nat_add)
      have step: "(?m + cs - 1) div cs = (?m - 1) div cs + 1"
        using assms by (rule ceil_div_step)
      have tail: "(max 0 (?m - cs) + cs - 1) div cs = (?m - 1) div cs"
      proof (cases "cs \<le> ?m")
        case True
        then have "max 0 (?m - cs) + cs - 1 = ?m - 1" by simp
        then show ?thesis by (simp only:)
      next
        case False
        then have "(?m - 1) div cs = 0" "max 0 (?m - cs) + cs - 1 = cs - 1"
          using \<open>i < int (length xs)\<close> by (simp_all add: div_pos_pos_trivial)
        then show ?thesis using assms by (simp add: div_pos_pos_trivial)
      qed
      have "int (length (?c # cks)) = 1 + int (length cks)" by simp
      also have "\<dots> = 1 + (max 0 (?m - cs) + cs - 1) div cs" by (simp only: cks(3) m')
      also have "\<dots> = (?m + cs - 1) div cs" by (simp only: tail step)
      finally show ?thesis by (simp only: m)
    qed
    have full: "\<forall>j. Suc j < length (?c # cks) \<longrightarrow> int (length ((?c # cks) ! j)) = cs"
    proof (intro allI impI)
      fix j assume j: "Suc j < length (?c # cks)"
      show "int (length ((?c # cks) ! j)) = cs"
      proof (cases j)
        case 0
        with j have "cks \<noteq> []" by auto
        then have "drop (nat (i + cs)) xs \<noteq> []"
          using cks(2) cks(4)
          by (metis concat.simps(1) concat_eq_Nil_conv list.set_intros(1) neq_Nil_conv)
        then have "nat i + nat cs < length xs" by (simp add: nat_add)
        then show ?thesis using 0 assms by (simp add: c)
      next
        case (Suc k)
        then show ?thesis using j cks(5) by simp
      qed
    qed
    show ?thesis using unfold cat len ne le cks(4) full
      by (intro exI[of _ "?c # cks"]) simp
  qed
qed

text \<open>With a chunk size that is not positive the loop never leaves a non-empty rest.\<close>

lemma chunk_loop_nonpos:
  assumes "cs \<le> 0" and "i < int (length xs)"
  shows "chunk_loop xs cs i acc = None"
proof (cases "chunk_loop xs cs i acc")
  case None
  then show ?thesis .
next
  case (Some y)
  have "chunkSize \<le> 0 \<and> j < int (length records) \<longrightarrow> False"
    if "chunk_loop records chunkSize j chunks = Some z" for records chunkSize j chunks z
  proof (rule chunk_loop.raw_induct
          [where P = "\<lambda>records chunkSize j chunks z.
                        chunkSize \<le> 0 \<and> j < int (length records) \<longrightarrow> False",
           OF _ that], intro impI, elim conjE)
    fix loop rs k j ch z
    assume IH: "\<And>a b c d y. loop a b c d = Some y \<Longrightarrow> b \<le> 0 \<and> c < int (length a) \<longrightarrow> False"
      and step: "(if j < int (length rs) then loop rs k (j + k) (ch @ [js_slice rs j (j + k)])
                  else Some ch) = Some z"
      and k: "k \<le> 0" and j: "j < int (length rs)"
    from step j have "loop rs k (j + k) (ch @ [js_slice rs j (j + k)]) = Some z" by simp
    from IH[OF this] k j show False by simp
  qed
  from this[OF Some] assms show ?thesis by simp
qed

text \<open>
  Claim C7. For a non-empty array of length \<open>N\<close> and a chunk size \<open>C > 0\<close>, the chunking
  loop of the batch operations returns, and what it returns has exactly \<open>ceil(N / C)\<close>
  chunks; every chunk is non-empty and has at most \<open>C\<close> elements, every chunk but the
  last has exactly \<open>C\<close>, and the chunks concatenated in order are the array.
\<close>

theorem chunking_partitions_input:
  assumes "xs \<noteq> []" and "0 < C"
  shows "\<exists>chunks. chunk_loop xs C 0 [] = Some chunks
           \<and> int (length chunks) = \<lceil>real (length xs) / real_of_int C\<rceil>
           \<and> (\<forall>c \<in> set chunks. c \<noteq> [] \<and> int (length c) \<le> C)
           \<and> (\<forall>j. Suc j < length chunks \<longrightarrow> int (length (chunks ! j)) = C)
           \<and> last chunks \<noteq> []
           \<and> concat chunks = xs"
proof -
  from chunk_loop_pos[OF assms(2), of 0 xs "[]"]
  obtain cks where cks: "chunk_loop xs C 0 [] = Some cks" "concat cks = xs"
      "int (length cks) = (int (length xs) + C - 1) div C"
      "\<forall>c \<in> set cks. c \<noteq> [] \<and> int (length c) \<le> C"
      "\<forall>j. Suc j < length cks \<longrightarrow> int (length (cks ! j)) = C"
    by auto
  have "cks \<noteq> []" using cks(2) assms(1) by auto
  then have "last cks \<noteq> []" using cks(4) last_in_set by blast
  moreover have "int (length cks) = \<lceil>real (length xs) / real_of_int C\<rceil>"
    using ceil_div_int[OF assms(2), of "int (length xs)"] cks(3) by simp
  ultimately show ?thesis using cks by blast
qed

theorem chunking_partitions_input_witness:
  "\<exists>chunks. chunk_loop [1, 2, 3, 4, 5 :: nat] 2 0 [] = Some chunks
      \<and> length chunks = 3 \<and> last chunks \<noteq> [] \<and> concat chunks = [1, 2, 3, 4, 5]"
proof -
  have "\<lceil>real (length [1, 2, 3, 4, 5 :: nat]) / real_of_int 2\<rceil> = 3"
    by (simp add: ceiling_eq_iff)
  then show ?thesis
    using chunking_partitions_input[of "[1, 2, 3, 4, 5 :: nat]" 2] by auto
qed

subsection \<open>Credential validity\<close>

lemma getAccessToken_trace: "trace (snd (getAccessToken E c)) = trace c @ [TokenRequest]"
  by (simp add: getAccessToken_def axios_token_def split: prod.splits sum.splits)

text \<open>
  Claim C5. \<open>ensureTokenValid\<close> refreshes the credential (one call of the credential
  endpoint, by \<open>getAccessToken\<close>) exactly when the cache is disabled, or no credential
  is held, or \<open>expireTime - now < 60000\<close>; when caching is enabled and a credential
  with \<open>expireTime - now \<ge> 60000\<close> is held, it returns without any call and leaves the
  client, so the stored token and expiry, as they were. "Held" is the source's test:
  the token is neither \<open>null\<close> nor the empty string and the expiry is neither \<open>null\<close>
  nor 0. The two cases below are exhaustive.
\<close>

theorem ensureTokenValid_refresh_condition:
  "(disableTokenCache c \<or> accessToken c = None \<or> accessToken c = Some [] \<or> expireTime c = None
      \<or> expireTime c = Some 0 \<or> the (expireTime c) - clock E (remote c) < 60000
     \<longrightarrow> ensureTokenValid E c = getAccessToken E c
         \<and> trace (snd (ensureTokenValid E c)) = trace c @ [TokenRequest])
   \<and> (\<not> disableTokenCache c \<and> accessToken c = Some tok \<and> tok \<noteq> [] \<and> expireTime c = Some t
        \<and> t \<noteq> 0 \<and> t - clock E (remote c) \<ge> 60000
     \<longrightarrow> ensureTokenValid E c = (Inr (), c))"
proof (intro conjI impI)
  assume a: "disableTokenCache c \<or> accessToken c = None \<or> accessToken c = Some []
      \<or> expireTime c = None \<or> expireTime c = Some 0
      \<or> the (expireTime c) - clock E (remote c) < 60000"
  then show e: "ensureTokenValid E c = getAccessToken E c"
    by (auto simp: ensureTokenValid_def)
  show "trace (snd (ensureTokenValid E c)) = trace c @ [TokenRequest]"
    unfolding e by (rule getAccessToken_trace)
next
  assume "\<not> disableTokenCache c \<and> accessToken c = Some tok \<and> tok \<noteq> [] \<and> expireTime c = Some t
        \<and> t \<noteq> 0 \<and> t - clock E (remote c) \<ge> 60000"
  then show "ensureTokenValid E c = (Inr (), c)"
    by (simp add: ensureTokenValid_def)
qed

text \<open>With the clock at 0: no credential held, a refresh; an expiry of 59999, a
  refresh; an expiry of 60000, none.\<close>

theorem ensureTokenValid_refresh_condition_witness:
  "trace (snd (ensureTokenValid (scripted_env (\<lambda>k. Inr ())) (fresh_client :: (unit, nat) client)))
     = [TokenRequest]
   \<and> trace (snd (ensureTokenValid (scripted_env (\<lambda>k. Inr ()))
                   (holding ''t0'' 59999 :: (unit, nat) client)))
     = [TokenRequest]
   \<and> ensureTokenValid (scripted_env (\<lambda>k. Inr ())) (holding ''t0'' 60000 :: (unit, nat) client)
     = (Inr (), holding ''t0'' 60000)"
proof -
  let ?E = "scripted_env (\<lambda>k. Inr ()) :: (unit, unit, nat) env"
  have h1: "accessToken (fresh_client :: (unit, nat) client) = None"
    by (simp add: fresh_client_def)
  have h2: "the (expireTime (holding ''t0'' 59999 :: (unit, nat) client))
              - clock ?E (remote (holding ''t0'' 59999 :: (unit, nat) client)) < 60000"
    by (simp add: holding_def scripted_env_def)
  have h3: "\<not> disableTokenCache (holding ''t0'' 60000 :: (unit, nat) client)
      \<and> accessToken (holding ''t0'' 60000 :: (unit, nat) client) = Some ''t0'' \<and> ''t0'' \<noteq> []
      \<and> expireTime (holding ''t0'' 60000 :: (unit, nat) client) = Some 60000 \<and> (60000 :: int) \<noteq> 0
      \<and> 60000 - clock ?E (remote (holding ''t0'' 60000 :: (unit, nat) client)) \<ge> 60000"
    by (simp add: holding_def scripted_env_def)
  have "trace (snd (ensureTokenValid ?E (fresh_client :: (unit, nat) client)))
          = trace (fresh_client :: (unit, nat) client) @ [TokenRequest]"
    using ensureTokenValid_refresh_condition[of "fresh_client :: (unit, nat) client" ?E] h1
    by blast
  moreover have "trace (snd (ensureTokenValid ?E (holding ''t0'' 59999 :: (unit, nat) client)))
          = trace (holding ''t0'' 59999 :: (unit, nat) client) @ [TokenRequest]"
    using ensureTokenValid_refresh_condition[of "holding ''t0'' 59999 :: (unit, nat) client" ?E] h2
    by blast
  moreover have "ensureTokenValid ?E (holding ''t0'' 60000 :: (unit, nat) client)
          = (Inr (), holding ''t0'' 60000)"
    using ensureTokenValid_refresh_condition
            [of "holding ''t0'' 60000 :: (unit, nat) client" ?E "''t0''" 60000] h3
    by blast
  ultimately show ?thesis by (simp add: fresh_client_def holding_def)
qed

subsection \<open>Batch operations: empty and invalid input\<close>

text \<open>
  Claim C9. Given an empty array, each of the five batch operations returns exactly
  \<open>{total: 0, success: [], failed: [], successCount: 0, failedCount: 0}\<close>; given a
  missing or non-array input, each throws its validation error. In both cases the
  client comes back as it was: its transport trace has no new entry (no credential
  refresh, no request), and its token, expiry and outside world are untouched. This
  holds for every environment, limit and retry policy.
\<close>

theorem batch_empty_and_invalid_input:
  "create_recordsWithIterator E1 (Some []) limit c1
     = Some (Inr \<lparr>success = [], failed = [], successCount = 0, failedCount = 0, total = 0\<rparr>, c1)
   \<and> update_recordsWithIterator E1 (Some []) limit c1
     = Some (Inr \<lparr>success = [], failed = [], successCount = 0, failedCount = 0, total = 0\<rparr>, c1)
   \<and> delete_recordsWithIterator E2 (Some []) limit c2
     = Some (Inr \<lparr>success = [], failed = [], successCount = 0, failedCount = 0, total = 0\<rparr>, c2)
   \<and> department_batchExchange E3 (Some []) retryOptions c3
     = Some (Inr \<lparr>success = [], failed = [], successCount = 0, failedCount = 0, total = 0\<rparr>, c3)
   \<and> user_batchExchange E3 (Some []) retryOptions c3
     = Some (Inr \<lparr>success = [], failed = [], successCount = 0, failedCount = 0, total = 0\<rparr>, c3)
   \<and> create_recordsWithIterator E1 None limit c1
     = Some (Inl (OtherError None ''records must be an array''), c1)
   \<and> update_recordsWithIterator E1 None limit c1
     = Some (Inl (OtherError None ''records must be an array''), c1)
   \<and> delete_recordsWithIterator E2 None limit c2
     = Some (Inl (OtherError None ''ids must be an array''), c2)
   \<and> department_batchExchange E3 None retryOptions c3
     = Some (Inl (OtherError None ''department_ids must be an array''), c3)
   \<and> user_batchExchange E3 None retryOptions c3
     = Some (Inl (OtherError None ''user_ids must be an array''), c3)"
  by (simp add: create_recordsWithIterator_def update_recordsWithIterator_def
      delete_recordsWithIterator_def department_batchExchange_def user_batchExchange_def
      records_iterator_def batchExchange_def)

subsection \<open>Batch operations: the calls of a run\<close>

text \<open>The calls of a run list every chunk, in order.\<close>

lemma chunk_calls_chunks: "map fst (chunk_calls call chunks c) = chunks"
  by (induction chunks arbitrary: c) (auto split: prod.splits)

lemma records_chunk_spec:
  "records_chunk call p id_of what chunk acc c =
     (case call chunk c of
        (reply, c') \<Rightarrow>
          ((fst acc @ filter p (spec_returned_items reply),
            snd acc @ filter (\<lambda>i. \<not> p i) (spec_returned_items reply)
              @ (case spec_chunk_failure what reply of
                   Some m \<Rightarrow> map (\<lambda>x. failed_entry (id_of x) m) chunk
                 | None \<Rightarrow> [])),
           c'))"
  by (cases acc)
     (auto simp: records_chunk_def spec_returned_items_def spec_chunk_failure_def
           split: prod.splits sum.splits option.splits)

lemma records_chunks_spec:
  "records_chunks call p id_of what chunks acc c = (acc', c') \<Longrightarrow>
     fst acc' = fst acc @ concat (map (\<lambda>(chunk, reply). filter p (spec_returned_items reply))
                                   (chunk_calls call chunks c))
   \<and> snd acc' = snd acc @ concat (map (\<lambda>(chunk, reply).
                                    filter (\<lambda>i. \<not> p i) (spec_returned_items reply)
                                    @ (case spec_chunk_failure what reply of
                                         Some m \<Rightarrow> map (\<lambda>x. failed_entry (id_of x) m) chunk
                                       | None \<Rightarrow> []))
                                   (chunk_calls call chunks c))"
proof (induction chunks arbitrary: acc c)
  case Nil
  then show ?case by simp
next
  case (Cons chunk rest)
  obtain reply c1 where call: "call chunk c = (reply, c1)" by (cases "call chunk c")
  let ?acc1 = "(fst acc @ filter p (spec_returned_items reply),
            snd acc @ filter (\<lambda>i. \<not> p i) (spec_returned_items reply)
              @ (case spec_chunk_failure what reply of
                   Some m \<Rightarrow> map (\<lambda>x. failed_entry (id_of x) m) chunk
                 | None \<Rightarrow> []))"
  have step: "records_chunk call p id_of what chunk acc c = (?acc1, c1)"
    by (simp add: records_chunk_spec call)
  with Cons.prems have "records_chunks call p id_of what rest ?acc1 c1 = (acc', c')" by simp
  from Cons.IH[OF this] show ?case by (simp add: call)
qed

lemma spec_failed_chunk_no_items:
  "spec_chunk_failure what reply = Some m \<Longrightarrow> spec_returned_items reply = []"
  by (auto simp: spec_chunk_failure_def spec_returned_items_def
      split: sum.splits if_splits option.splits)

lemma spec_entries_count:
  assumes "\<forall>(chunk, reply) \<in> set H. spec_chunk_failure what reply = None
             \<longrightarrow> length (spec_returned_items reply) = length chunk"
  shows "length (concat (map (\<lambda>(chunk, reply). filter p (spec_returned_items reply)) H))
       + length (concat (map (\<lambda>(chunk, reply).
                                filter (\<lambda>i. \<not> p i) (spec_returned_items reply)
                                @ (case spec_chunk_failure what reply of
                                     Some m \<Rightarrow> map (\<lambda>x. failed_entry (id_of x) m) chunk
                                   | None \<Rightarrow> [])) H))
       = length (concat (map fst H))"
  using assms
proof (induction H)
  case Nil
  then show ?case by simp
next
  case (Cons x H)
  obtain chunk reply where x: "x = (chunk, reply)" by (cases x)
  have one: "length (filter p (spec_returned_items reply))
        + length (filter (\<lambda>i. \<not> p i) (spec_returned_items reply)
                  @ (case spec_chunk_failure what reply of
                       Some m \<Rightarrow> map (\<lambda>x. failed_entry (id_of x) m) chunk
                     | None \<Rightarrow> []))
        = length chunk"
  proof (cases "spec_chunk_failure what reply")
    case None
    with Cons.prems x have "length (spec_returned_items reply) = length chunk" by simp
    with None sum_length_filter_compl[of p "spec_returned_items reply"] show ?thesis by simp
  next
    case (Some m)
    with spec_failed_chunk_no_items[OF Some] show ?thesis by simp
  qed
  from Cons.IH Cons.prems have "length (concat (map (\<lambda>(chunk, reply). filter p (spec_returned_items reply)) H))
       + length (concat (map (\<lambda>(chunk, reply).
                                filter (\<lambda>i. \<not> p i) (spec_returned_items reply)
                                @ (case spec_chunk_failure what reply of
                                     Some m \<Rightarrow> map (\<lambda>x. failed_entry (id_of x) m) chunk
                                   | None \<Rightarrow> [])) H))
       = length (concat (map fst H))" by simp
  with one show ?case by (simp add: x)
qed

lemma chunk_loop_empty: "chunk_loop [] cs 0 acc = Some acc"
  by (subst chunk_loop.simps) simp

lemma records_iterator_run:
  "(\<exists>chunks H r c'.
        chunk_loop rs (case limit of None \<Rightarrow> 100 | Some l \<Rightarrow> l) 0 [] = Some chunks
      \<and> H = chunk_calls call chunks c
      \<and> records_iterator call p id_of what param (Some rs) limit c = Some (Inr r, c')
      \<and> total r = length rs
      \<and> successCount r = length (success r)
      \<and> failedCount r = length (failed r)
      \<and> success r = concat (map (\<lambda>(chunk, reply). filter p (spec_returned_items reply)) H)
      \<and> failed r = concat (map (\<lambda>(chunk, reply).
                                   filter (\<lambda>i. \<not> p i) (spec_returned_items reply)
                                   @ (case spec_chunk_failure what reply of
                                        Some m \<Rightarrow> map (\<lambda>x. failed_entry (id_of x) m) chunk
                                      | None \<Rightarrow> [])) H)
      \<and> ((\<forall>(chunk, reply) \<in> set H. spec_chunk_failure what reply = None
              \<longrightarrow> length (spec_returned_items reply) = length chunk)
           \<longrightarrow> successCount r + failedCount r = total r))
   \<or> (records_iterator call p id_of what param (Some rs) limit c = None
       \<and> (case limit of None \<Rightarrow> 100 | Some l \<Rightarrow> l) \<le> 0)"
proof (cases "rs = []")
  case True
  then show ?thesis by (simp add: records_iterator_def chunk_loop_empty)
next
  case False
  show ?thesis
  proof (cases "0 < (case limit of None \<Rightarrow> 100 | Some l \<Rightarrow> l)")
    case pos: True
    from chunk_loop_pos[OF pos, of 0 rs "[]"] obtain chunks where
      chunks: "chunk_loop rs (case limit of None \<Rightarrow> 100 | Some l \<Rightarrow> l) 0 [] = Some chunks"
        "concat chunks = rs" by auto
    obtain s f c' where run: "records_chunks call p id_of what chunks ([], []) c = ((s, f), c')"
      by (metis surj_pair)
    let ?H = "chunk_calls call chunks c"
    from records_chunks_spec[OF run]
    have s: "s = concat (map (\<lambda>(chunk, reply). filter p (spec_returned_items reply)) ?H)"
      and f: "f = concat (map (\<lambda>(chunk, reply).
                                   filter (\<lambda>i. \<not> p i) (spec_returned_items reply)
                                   @ (case spec_chunk_failure what reply of
                                        Some m \<Rightarrow> map (\<lambda>x. failed_entry (id_of x) m) chunk
                                      | None \<Rightarrow> [])) ?H)"
      by simp_all
    have sum: "(\<forall>(chunk, reply) \<in> set ?H. spec_chunk_failure what reply = None
              \<longrightarrow> length (spec_returned_items reply) = length chunk)
           \<longrightarrow> length s + length f = length rs"
    proof
      assume "\<forall>(chunk, reply) \<in> set ?H. spec_chunk_failure what reply = None
              \<longrightarrow> length (spec_returned_items reply) = length chunk"
      from spec_entries_count[OF this, of p id_of] show "length s + length f = length rs"
        unfolding s f by (simp add: chunk_calls_chunks chunks(2))
    qed
    have res: "records_iterator call p id_of what param (Some rs) limit c
           = Some (Inr \<lparr>success = s, failed = f, successCount = length s,
                        failedCount = length f, total = length rs\<rparr>, c')"
      using False chunks(1) run by (simp add: records_iterator_def)
    show ?thesis
      apply (rule disjI1)
      apply (rule exI[of _ chunks], rule exI[of _ ?H])
      apply (rule exI[of _ "\<lparr>success = s, failed = f, successCount = length s,
                        failedCount = length f, total = length rs\<rparr>"], rule exI[of _ c'])
      using chunks(1) res s f sum by simp
  next
    case nonpos: False
    then have "chunk_loop rs (case limit of None \<Rightarrow> 100 | Some l \<Rightarrow> l) 0 [] = None"
      using False by (intro chunk_loop_nonpos) simp_all
    then show ?thesis using False nonpos by (simp add: records_iterator_def)
  qed
qed


lemma exchange_chunk_spec:
  "exchange_chunk E ro chunk acc c =
     (case executeWithRetry (sleep_client E) (exchange_attempt E chunk)
             (case ro of None \<Rightarrow> no_options | Some ro \<Rightarrow> ro) c of
        (reply, c') \<Rightarrow>
          ((fst acc @ (case reply of Inr ms \<Rightarrow> ms | Inl e \<Rightarrow> []),
            snd acc @ (case reply of
                         Inr ms \<Rightarrow> []
                       | Inl e \<Rightarrow>
                           map (\<lambda>x. \<lparr>failed_id = x,
                                      failed_error = (case e of Some e \<Rightarrow> message e
                                                      | None \<Rightarrow> ''undefined'')\<rparr>) chunk)),
           c'))"
  by (cases acc) (auto simp: exchange_chunk_def split: prod.splits sum.splits)

lemma exchange_chunks_spec:
  "exchange_chunks E ro chunks acc c = (acc', c') \<Longrightarrow>
     fst acc' = fst acc @ concat (map (\<lambda>(chunk, reply). case reply of Inr ms \<Rightarrow> ms | Inl e \<Rightarrow> [])
        (chunk_calls (\<lambda>chunk. executeWithRetry (sleep_client E) (exchange_attempt E chunk)
                                (case ro of None \<Rightarrow> no_options | Some ro \<Rightarrow> ro)) chunks c))
   \<and> snd acc' = snd acc @ concat (map (\<lambda>(chunk, reply).
                                     case reply of
                                       Inr ms \<Rightarrow> []
                                     | Inl e \<Rightarrow>
                                         map (\<lambda>x. \<lparr>failed_id = x,
                                                    failed_error = (case e of Some e \<Rightarrow> message e
                                                                    | None \<Rightarrow> ''undefined'')\<rparr>)
                                             chunk)
        (chunk_calls (\<lambda>chunk. executeWithRetry (sleep_client E) (exchange_attempt E chunk)
                                (case ro of None \<Rightarrow> no_options | Some ro \<Rightarrow> ro)) chunks c))"
proof (induction chunks arbitrary: acc c)
  case Nil
  then show ?case by simp
next
  case (Cons chunk rest)
  obtain reply c1 where call: "executeWithRetry (sleep_client E) (exchange_attempt E chunk)
             (case ro of None \<Rightarrow> no_options | Some ro \<Rightarrow> ro) c = (reply, c1)"
    by (metis surj_pair)
  let ?acc1 = "(fst acc @ (case reply of Inr ms \<Rightarrow> ms | Inl e \<Rightarrow> []),
            snd acc @ (case reply of
                         Inr ms \<Rightarrow> []
                       | Inl e \<Rightarrow>
                           map (\<lambda>x. \<lparr>failed_id = x,
                                      failed_error = (case e of Some e \<Rightarrow> message e
                                                      | None \<Rightarrow> ''undefined'')\<rparr>) chunk))"
  have step: "exchange_chunk E ro chunk acc c = (?acc1, c1)"
    by (simp add: exchange_chunk_spec call)
  with Cons.prems have "exchange_chunks E ro rest ?acc1 c1 = (acc', c')" by simp
  from Cons.IH[OF this] show ?case by (simp add: call)
qed

lemma exchange_entries_count:
  assumes "\<forall>(chunk, reply) \<in> set H. \<forall>ms. reply = Inr ms \<longrightarrow> length ms = length chunk"
  shows "length (concat (map (\<lambda>(chunk, reply). case reply of Inr ms \<Rightarrow> ms | Inl e \<Rightarrow> []) H))
       + length (concat (map (\<lambda>(chunk, reply).
                                case reply of
                                  Inr ms \<Rightarrow> []
                                | Inl e \<Rightarrow> map (f e) chunk) H))
       = length (concat (map fst H))"
  using assms
  by (induction H) (auto split: sum.splits)

lemma batchExchange_run:
  "\<exists>chunks H r c'.
          chunk_loop ids 200 0 [] = Some chunks
        \<and> H = chunk_calls (\<lambda>chunk. executeWithRetry (sleep_client E3) (exchange_attempt E3 chunk)
                                     (case retryOptions of None \<Rightarrow> no_options | Some ro \<Rightarrow> ro))
                  chunks c3
        \<and> batchExchange param E3 (Some ids) retryOptions c3 = Some (Inr r, c')
        \<and> total r = length ids
        \<and> successCount r = length (success r) \<and> failedCount r = length (failed r)
        \<and> success r = concat (map (\<lambda>(chunk, reply). case reply of Inr ms \<Rightarrow> ms | Inl e \<Rightarrow> []) H)
        \<and> failed r = concat (map (\<lambda>(chunk, reply).
                                     case reply of
                                       Inr ms \<Rightarrow> []
                                     | Inl e \<Rightarrow>
                                         map (\<lambda>x. \<lparr>failed_id = x,
                                                    failed_error = (case e of Some e \<Rightarrow> message e
                                                                    | None \<Rightarrow> ''undefined'')\<rparr>)
                                             chunk) H)
        \<and> ((\<forall>(chunk, reply) \<in> set H. \<forall>ms. reply = Inr ms \<longrightarrow> length ms = length chunk)
             \<longrightarrow> successCount r + failedCount r = total r)"
proof (cases "ids = []")
  case True
  then show ?thesis by (simp add: batchExchange_def chunk_loop_empty)
next
  case False
  have "(0::int) < 200" by simp
  from chunk_loop_pos[OF this, of 0 ids "[]"] obtain chunks where
    chunks: "chunk_loop ids 200 0 [] = Some chunks" "concat chunks = ids" by auto
  obtain s f c' where run: "exchange_chunks E3 retryOptions chunks ([], []) c3 = ((s, f), c')"
    by (metis surj_pair)
  let ?H = "chunk_calls (\<lambda>chunk. executeWithRetry (sleep_client E3) (exchange_attempt E3 chunk)
                                     (case retryOptions of None \<Rightarrow> no_options | Some ro \<Rightarrow> ro))
                  chunks c3"
  from exchange_chunks_spec[OF run]
  have s: "s = concat (map (\<lambda>(chunk, reply). case reply of Inr ms \<Rightarrow> ms | Inl e \<Rightarrow> []) ?H)"
    and f: "f = concat (map (\<lambda>(chunk, reply).
                                     case reply of
                                       Inr ms \<Rightarrow> []
                                     | Inl e \<Rightarrow>
                                         map (\<lambda>x. \<lparr>failed_id = x,
                                                    failed_error = (case e of Some e \<Rightarrow> message e
                                                                    | None \<Rightarrow> ''undefined'')\<rparr>)
                                             chunk) ?H)"
    by simp_all
  have sum: "(\<forall>(chunk, reply) \<in> set ?H. \<forall>ms. reply = Inr ms \<longrightarrow> length ms = length chunk)
           \<longrightarrow> length s + length f = length ids"
  proof
    assume "\<forall>(chunk, reply) \<in> set ?H. \<forall>ms. reply = Inr ms \<longrightarrow> length ms = length chunk"
    from exchange_entries_count[OF this] show "length s + length f = length ids"
      unfolding s f by (simp add: chunk_calls_chunks chunks(2))
  qed
  have res: "batchExchange param E3 (Some ids) retryOptions c3
           = Some (Inr \<lparr>success = s, failed = f, successCount = length s,
                        failedCount = length f, total = length ids\<rparr>, c')"
    using False chunks(1) run by (simp add: batchExchange_def)
  show ?thesis
    apply (rule exI[of _ chunks], rule exI[of _ ?H])
    apply (rule exI[of _ "\<lparr>success = s, failed = f, successCount = length s,
                        failedCount = length f, total = length ids\<rparr>"], rule exI[of _ c'])
    using chunks(1) res s f sum by simp
qed

lemma exchange_attempt_api:
  "exchange_attempt E chunk c
     = (case api_call E chunk c of
          (Inl error, c') \<Rightarrow> (Inl error, c')
        | (Inr response, c') \<Rightarrow>
            if code response \<noteq> ''0''
            then (Inl (OtherError None
                    (str_or (msg response) (''Exchange failed with code '' @ code response))),
                  c')
            else (Inr (case exchange_data response of Some d \<Rightarrow> d | None \<Rightarrow> []), c'))"
  by (simp add: exchange_attempt_def api_call_def functionLimiter_def
           split: prod.splits sum.splits)

lemma exchange_code_throws:
  assumes "api_call E chunk c = (Inr denied, c')" and "code denied \<noteq> ''0''"
    and "0 \<le> (case maxRetries ro of None \<Rightarrow> 3 | Some m \<Rightarrow> m)"
  shows "executeWithRetry (sleep_client E) (exchange_attempt E chunk) ro c
       = (Inl (Some (OtherError None
            (str_or (msg denied) (''Exchange failed with code '' @ code denied)))), c')"
proof -
  let ?e = "OtherError None (str_or (msg denied) (''Exchange failed with code '' @ code denied))"
  have thrown: "exchange_attempt E chunk c = (Inl ?e, c')"
    using assms(1,2) by (simp add: exchange_attempt_api)
  have permanent: "\<not> isRetryableError ?e" by (simp add: isRetryableError_def)
  show ?thesis
  proof (cases "(case maxRetries ro of None \<Rightarrow> 3 | Some m \<Rightarrow> m) = 0")
    case True
    then show ?thesis
      unfolding executeWithRetry_def
      using retry_step_final[where fn = "exchange_attempt E chunk" and s = c, OF thrown]
      by simp
  next
    case False
    with assms(3) have "0 < (case maxRetries ro of None \<Rightarrow> 3 | Some m \<Rightarrow> m)" by simp
    from retry_step_permanent[where fn = "exchange_attempt E chunk" and s = c,
           OF this thrown permanent]
    show ?thesis
      unfolding executeWithRetry_def by simp
  qed
qed

lemma classified_success:
  assumes "(chunk, reply) \<in> set H" and "i \<in> set (spec_returned_items reply)" and "p i"
  shows "i \<in> set (concat (map (\<lambda>(chunk, reply). filter p (spec_returned_items reply)) H))"
  using assms by force

lemma classified_failed:
  assumes "(chunk, reply) \<in> set H" and "i \<in> set (spec_returned_items reply)" and "\<not> p i"
  shows "i \<in> set (concat (map (\<lambda>(chunk, reply).
                                  filter (\<lambda>i. \<not> p i) (spec_returned_items reply)
                                  @ rest chunk reply) H))"
  using assms by force

lemma records_iterator_classes:
  "(\<exists>chunks H r c'.
        chunk_loop rs (case limit of None \<Rightarrow> 100 | Some l \<Rightarrow> l) 0 [] = Some chunks
      \<and> H = chunk_calls call chunks c
      \<and> records_iterator call p id_of what param (Some rs) limit c = Some (Inr r, c')
      \<and> success r = concat (map (\<lambda>(chunk, reply). filter p (spec_returned_items reply)) H)
      \<and> failed r = concat (map (\<lambda>(chunk, reply).
                                   filter (\<lambda>i. \<not> p i) (spec_returned_items reply)
                                   @ (case spec_chunk_failure what reply of
                                        Some m \<Rightarrow> map (\<lambda>x. failed_entry (id_of x) m) chunk
                                      | None \<Rightarrow> [])) H)
      \<and> (\<forall>(chunk, reply) \<in> set H. \<forall>i \<in> set (spec_returned_items reply).
            (p i \<longrightarrow> i \<in> set (success r)) \<and> (\<not> p i \<longrightarrow> i \<in> set (failed r))))
   \<or> (records_iterator call p id_of what param (Some rs) limit c = None
       \<and> (case limit of None \<Rightarrow> 100 | Some l \<Rightarrow> l) \<le> 0)"
proof (rule disjE[OF records_iterator_run[of rs limit call c p id_of what param]])
  assume "records_iterator call p id_of what param (Some rs) limit c = None
       \<and> (case limit of None \<Rightarrow> 100 | Some l \<Rightarrow> l) \<le> 0"
  then show ?thesis by (rule disjI2)
next
  assume "\<exists>chunks H r c'.
        chunk_loop rs (case limit of None \<Rightarrow> 100 | Some l \<Rightarrow> l) 0 [] = Some chunks
      \<and> H = chunk_calls call chunks c
      \<and> records_iterator call p id_of what param (Some rs) limit c = Some (Inr r, c')
      \<and> total r = length rs
      \<and> successCount r = length (success r) \<and> failedCount r = length (failed r)
      \<and> success r = concat (map (\<lambda>(chunk, reply). filter p (spec_returned_items reply)) H)
      \<and> failed r = concat (map (\<lambda>(chunk, reply).
                                   filter (\<lambda>i. \<not> p i) (spec_returned_items reply)
                                   @ (case spec_chunk_failure what reply of
                                        Some m \<Rightarrow> map (\<lambda>x. failed_entry (id_of x) m) chunk
                                      | None \<Rightarrow> [])) H)
      \<and> ((\<forall>(chunk, reply) \<in> set H. spec_chunk_failure what reply = None
              \<longrightarrow> length (spec_returned_items reply) = length chunk)
           \<longrightarrow> successCount r + failedCount r = total r)"
  then obtain chunks r c' where returns:
      "chunk_loop rs (case limit of None \<Rightarrow> 100 | Some l \<Rightarrow> l) 0 [] = Some chunks"
      "records_iterator call p id_of what param (Some rs) limit c = Some (Inr r, c')"
      "success r = concat (map (\<lambda>(chunk, reply). filter p (spec_returned_items reply))
                            (chunk_calls call chunks c))"
      "failed r = concat (map (\<lambda>(chunk, reply).
                                   filter (\<lambda>i. \<not> p i) (spec_returned_items reply)
                                   @ (case spec_chunk_failure what reply of
                                        Some m \<Rightarrow> map (\<lambda>x. failed_entry (id_of x) m) chunk
                                      | None \<Rightarrow> [])) (chunk_calls call chunks c))"
    by (elim exE conjE) simp
  have "\<forall>(chunk, reply) \<in> set (chunk_calls call chunks c).
          \<forall>i \<in> set (spec_returned_items reply).
            (p i \<longrightarrow> i \<in> set (success r)) \<and> (\<not> p i \<longrightarrow> i \<in> set (failed r))"
    unfolding returns(3,4)
    using classified_success[where p = p and H = "chunk_calls call chunks c"]
      classified_failed[where p = p and H = "chunk_calls call chunks c"
        and rest = "\<lambda>chunk reply. case spec_chunk_failure what reply of
                                      Some m \<Rightarrow> map (\<lambda>x. failed_entry (id_of x) m) chunk
                                    | None \<Rightarrow> []"]
    by blast
  with returns show ?thesis by blast
qed

subsection \<open>Batch operations: classification of returned items\<close>

text \<open>
  Claim C10. Let \<open>chunks\<close> be the chunks of the input and \<open>H\<close> the calls of the run:
  every chunk with the reply of its unit call, in order, each call made on the client
  as the previous one left it. A run of \<open>object.create.recordsWithIterator\<close> reports as
  successes exactly the items returned by the calls that succeeded whose \<open>success\<close> is
  not strictly \<open>false\<close>, chunk after chunk, and the other returned items as failures;
  a run of \<open>object.update.recordsWithIterator\<close> or of
  \<open>object.delete.recordsWithIterator\<close> reports as successes exactly the returned items
  whose \<open>success\<close> is truthy, and the others as failures. So an item returned without
  the property, by whichever chunk, is a success of a creation and a failure of an
  update or a deletion. The failures also hold one entry per item of every chunk whose
  call failed. The run returns unless the limit is not positive.
\<close>

theorem item_classification:
  "((\<exists>chunks H r c'.
          chunk_loop rs (case limit of None \<Rightarrow> 100 | Some l \<Rightarrow> l) 0 [] = Some chunks
        \<and> H = chunk_calls (\<lambda>chunk. functionLimiter (create_records E chunk)) chunks c
        \<and> create_recordsWithIterator E (Some rs) limit c = Some (Inr r, c')
        \<and> success r = concat (map (\<lambda>(chunk, reply).
                                      filter (\<lambda>i. item_success i \<noteq> JBool False) (spec_returned_items reply)) H)
        \<and> failed r = concat (map (\<lambda>(chunk, reply).
                                     filter (\<lambda>i. item_success i = JBool False) (spec_returned_items reply)
                                     @ (case spec_chunk_failure ''Creation'' reply of
                                          Some m \<Rightarrow> map (\<lambda>x. failed_entry (js_or (rec_id x) (JStr ''unknown'')) m) chunk
                                        | None \<Rightarrow> [])) H)
        \<and> (\<forall>(chunk, reply) \<in> set H. \<forall>i \<in> set (spec_returned_items reply).
              item_success i = JUndefined \<longrightarrow> i \<in> set (success r)))
      \<or> (create_recordsWithIterator E (Some rs) limit c = None
          \<and> (case limit of None \<Rightarrow> 100 | Some l \<Rightarrow> l) \<le> 0))
   \<and> ((\<exists>chunks H r c'.
          chunk_loop rs (case limit of None \<Rightarrow> 100 | Some l \<Rightarrow> l) 0 [] = Some chunks
        \<and> H = chunk_calls (update_records E) chunks c
        \<and> update_recordsWithIterator E (Some rs) limit c = Some (Inr r, c')
        \<and> success r = concat (map (\<lambda>(chunk, reply).
                                      filter (\<lambda>i. truthy (item_success i)) (spec_returned_items reply)) H)
        \<and> failed r = concat (map (\<lambda>(chunk, reply).
                                     filter (\<lambda>i. \<not> truthy (item_success i)) (spec_returned_items reply)
                                     @ (case spec_chunk_failure ''Update'' reply of
                                          Some m \<Rightarrow> map (\<lambda>x. failed_entry (js_or (rec_id x) (JStr ''unknown'')) m) chunk
                                        | None \<Rightarrow> [])) H)
        \<and> (\<forall>(chunk, reply) \<in> set H. \<forall>i \<in> set (spec_returned_items reply).
              item_success i = JUndefined \<longrightarrow> i \<in> set (failed r)))
      \<or> (update_recordsWithIterator E (Some rs) limit c = None
          \<and> (case limit of None \<Rightarrow> 100 | Some l \<Rightarrow> l) \<le> 0))
   \<and> ((\<exists>chunks H r c'.
          chunk_loop ids (case limit of None \<Rightarrow> 100 | Some l \<Rightarrow> l) 0 [] = Some chunks
        \<and> H = chunk_calls (delete_records D) chunks d
        \<and> delete_recordsWithIterator D (Some ids) limit d = Some (Inr r, c')
        \<and> success r = concat (map (\<lambda>(chunk, reply).
                                      filter (\<lambda>i. truthy (item_success i)) (spec_returned_items reply)) H)
        \<and> failed r = concat (map (\<lambda>(chunk, reply).
                                     filter (\<lambda>i. \<not> truthy (item_success i)) (spec_returned_items reply)
                                     @ (case spec_chunk_failure ''Delete'' reply of
                                          Some m \<Rightarrow> map (\<lambda>x. failed_entry (JStr x) m) chunk
                                        | None \<Rightarrow> [])) H)
        \<and> (\<forall>(chunk, reply) \<in> set H. \<forall>i \<in> set (spec_returned_items reply).
              item_success i = JUndefined \<longrightarrow> i \<in> set (failed r)))
      \<or> (delete_recordsWithIterator D (Some ids) limit d = None
          \<and> (case limit of None \<Rightarrow> 100 | Some l \<Rightarrow> l) \<le> 0))"
proof (intro conjI)
  show "((\<exists>chunks H r c'.
          chunk_loop rs (case limit of None \<Rightarrow> 100 | Some l \<Rightarrow> l) 0 [] = Some chunks
        \<and> H = chunk_calls (\<lambda>chunk. functionLimiter (create_records E chunk)) chunks c
        \<and> create_recordsWithIterator E (Some rs) limit c = Some (Inr r, c')
        \<and> success r = concat (map (\<lambda>(chunk, reply).
                                      filter (\<lambda>i. item_success i \<noteq> JBool False) (spec_returned_items reply)) H)
        \<and> failed r = concat (map (\<lambda>(chunk, reply).
                                     filter (\<lambda>i. item_success i = JBool False) (spec_returned_items reply)
                                     @ (case spec_chunk_failure ''Creation'' reply of
                                          Some m \<Rightarrow> map (\<lambda>x. failed_entry (js_or (rec_id x) (JStr ''unknown'')) m) chunk
                                        | None \<Rightarrow> [])) H)
        \<and> (\<forall>(chunk, reply) \<in> set H. \<forall>i \<in> set (spec_returned_items reply).
              item_success i = JUndefined \<longrightarrow> i \<in> set (success r)))
      \<or> (create_recordsWithIterator E (Some rs) limit c = None
          \<and> (case limit of None \<Rightarrow> 100 | Some l \<Rightarrow> l) \<le> 0))"
    using records_iterator_classes
          [where call = "\<lambda>chunk. functionLimiter (create_records E chunk)"
            and p = "\<lambda>i. item_success i \<noteq> JBool False"
            and id_of = "\<lambda>x. js_or (rec_id x) (JStr ''unknown'')"
            and what = "''Creation''" and param = "''records''" and rs = rs and c = c
            and limit = limit]
    unfolding create_recordsWithIterator_def
    by (elim disjE exE conjE; simp; fastforce)
  show "((\<exists>chunks H r c'.
          chunk_loop rs (case limit of None \<Rightarrow> 100 | Some l \<Rightarrow> l) 0 [] = Some chunks
        \<and> H = chunk_calls (update_records E) chunks c
        \<and> update_recordsWithIterator E (Some rs) limit c = Some (Inr r, c')
        \<and> success r = concat (map (\<lambda>(chunk, reply).
                                      filter (\<lambda>i. truthy (item_success i)) (spec_returned_items reply)) H)
        \<and> failed r = concat (map (\<lambda>(chunk, reply).
                                     filter (\<lambda>i. \<not> truthy (item_success i)) (spec_returned_items reply)
                                     @ (case spec_chunk_failure ''Update'' reply of
                                          Some m \<Rightarrow> map (\<lambda>x. failed_entry (js_or (rec_id x) (JStr ''unknown'')) m) chunk
                                        | None \<Rightarrow> [])) H)
        \<and> (\<forall>(chunk, reply) \<in> set H. \<forall>i \<in> set (spec_returned_items reply).
              item_success i = JUndefined \<longrightarrow> i \<in> set (failed r)))
      \<or> (update_recordsWithIterator E (Some rs) limit c = None
          \<and> (case limit of None \<Rightarrow> 100 | Some l \<Rightarrow> l) \<le> 0))"
    using records_iterator_classes
          [where call = "update_records E"
            and p = "\<lambda>i. truthy (item_success i)"
            and id_of = "\<lambda>x. js_or (rec_id x) (JStr ''unknown'')"
            and what = "''Update''" and param = "''records''" and rs = rs and c = c
            and limit = limit]
    unfolding update_recordsWithIterator_def
    by (elim disjE exE conjE; simp; fastforce)
  show "((\<exists>chunks H r c'.
          chunk_loop ids (case limit of None \<Rightarrow> 100 | Some l \<Rightarrow> l) 0 [] = Some chunks
        \<and> H = chunk_calls (delete_records D) chunks d
        \<and> delete_recordsWithIterator D (Some ids) limit d = Some (Inr r, c')
        \<and> success r = concat (map (\<lambda>(chunk, reply).
                                      filter (\<lambda>i. truthy (item_success i)) (spec_returned_items reply)) H)
        \<and> failed r = concat (map (\<lambda>(chunk, reply).
                                     filter (\<lambda>i. \<not> truthy (item_success i)) (spec_returned_items reply)
                                     @ (case spec_chunk_failure ''Delete'' reply of
                                          Some m \<Rightarrow> map (\<lambda>x. failed_entry (JStr x) m) chunk
                                        | None \<Rightarrow> [])) H)
        \<and> (\<forall>(chunk, reply) \<in> set H. \<forall>i \<in> set (spec_returned_items reply).
              item_success i = JUndefined \<longrightarrow> i \<in> set (failed r)))
      \<or> (delete_recordsWithIterator D (Some ids) limit d = None
          \<and> (case limit of None \<Rightarrow> 100 | Some l \<Rightarrow> l) \<le> 0))"
    using records_iterator_classes
          [where call = "delete_records D"
            and p = "\<lambda>i. truthy (item_success i)"
            and id_of = "\<lambda>x. JStr x"
            and what = "''Delete''" and param = "''ids''" and rs = ids and c = d
            and limit = limit]
    unfolding delete_recordsWithIterator_def
    by (elim disjE exE conjE; simp; fastforce)
qed

lemma chunks_of_three:
  "chunk_loop [x1, x2, x3] 2 0 [] = Some [[x1, x2], [x3]]"
  by (simp add: chunk_loop.simps js_slice_def)

lemma mixed_create_calls:
  "chunk_calls (\<lambda>chunk. functionLimiter (create_records (scripted_env mixed_replies) chunk))
     [[x1, x2], [x3]] fresh_client
   = [([x1, x2], Inr (reply_items [item_absent, item_true])),
      ([x3], Inr (reply_items [item_false, item_absent]))]"
  by (simp add: unit_call_simps mixed_replies_def)

lemma mixed_update_calls:
  "chunk_calls (update_records (scripted_env mixed_replies)) [[x1, x2], [x3]] fresh_client
   = [([x1, x2], Inr (reply_items [item_absent, item_true])),
      ([x3], Inr (reply_items [item_false, item_absent]))]"
  by (simp add: unit_call_simps mixed_replies_def)

lemma mixed_delete_calls:
  "chunk_calls (delete_records (scripted_env mixed_replies)) [[x1, x2], [x3]] fresh_client
   = [([x1, x2], Inr (reply_items [item_absent, item_true])),
      ([x3], Inr (reply_items [item_false, item_absent]))]"
  by (simp add: unit_call_simps mixed_replies_def)

lemma returned_reply_items: "spec_returned_items (Inr (reply_items its)) = its"
  by (simp add: spec_returned_items_def reply_items_def)

lemma no_failure_reply_items: "spec_chunk_failure what (Inr (reply_items its)) = None"
  by (simp add: spec_chunk_failure_def reply_items_def)

text \<open>Three items in chunks of two, against the server that returns an item without
  \<open>success\<close> and one with \<open>true\<close> for the first chunk, and one with \<open>false\<close> and one
  without the property for the second.\<close>

theorem item_classification_witness:
  "(\<exists>r c'. create_recordsWithIterator (scripted_env mixed_replies) (Some three_records)
              (Some 2) fresh_client = Some (Inr r, c')
       \<and> success r = [item_absent, item_true, item_absent] \<and> failed r = [item_false])
   \<and> (\<exists>r c'. update_recordsWithIterator (scripted_env mixed_replies) (Some three_records)
              (Some 2) fresh_client = Some (Inr r, c')
       \<and> success r = [item_true] \<and> failed r = [item_absent, item_false, item_absent])
   \<and> (\<exists>r c'. delete_recordsWithIterator (scripted_env mixed_replies)
              (Some [''a'', ''b'', ''c'']) (Some 2) fresh_client = Some (Inr r, c')
       \<and> success r = [item_true] \<and> failed r = [item_absent, item_false, item_absent])"
  using item_classification
          [of three_records "Some 2" "scripted_env mixed_replies" fresh_client
              "[''a'', ''b'', ''c'']" "scripted_env mixed_replies" fresh_client]
  by (simp add: three_records_def chunks_of_three mixed_create_calls mixed_update_calls
        mixed_delete_calls returned_reply_items no_failure_reply_items
        item_absent_def item_true_def item_false_def del: chunk_calls.simps)
     blast

subsection \<open>Batch operations: the counts of a result\<close>

text \<open>
  Claim C1, as amended. Every run of a batch operation on an array returns a result
  whose \<open>total\<close> is the length of the input and whose \<open>successCount\<close> and
  \<open>failedCount\<close> are the lengths of its \<open>success\<close> and \<open>failed\<close> lists, whatever each
  chunk's call did; the one run that returns nothing is a record operation called with
  a limit that is not positive, whose chunking never ends. With \<open>H\<close> the calls of the
  run (every chunk with the reply of its call, in order), the lists are exactly: in
  \<open>success\<close> and \<open>failed\<close>, the items returned by the calls that succeeded, classified;
  and in \<open>failed\<close>, for every chunk whose call threw, returned a code other than
  \<open>'0'\<close>, or (record operations) returned an \<open>items\<close> that is not an array, one entry per
  item of the chunk with the message of the failure. So \<open>successCount + failedCount\<close>
  equals \<open>total\<close> when every call of the run that succeeded returned exactly one
  outcome per item of its chunk. For the two exchanges the call of a chunk is the
  retried request; a request answered with a code other than \<open>'0'\<close> throws, and is not
  retried.
\<close>

theorem batch_counts:
  "((\<exists>chunks H r c'.
          chunk_loop rs (case limit of None \<Rightarrow> 100 | Some l \<Rightarrow> l) 0 [] = Some chunks
        \<and> H = chunk_calls (\<lambda>chunk. functionLimiter (create_records E1 chunk)) chunks c1
        \<and> create_recordsWithIterator E1 (Some rs) limit c1 = Some (Inr r, c')
        \<and> total r = length rs
        \<and> successCount r = length (success r) \<and> failedCount r = length (failed r)
        \<and> success r = concat (map (\<lambda>(chunk, reply).
                                      filter (\<lambda>i. item_success i \<noteq> JBool False) (spec_returned_items reply)) H)
        \<and> failed r = concat (map (\<lambda>(chunk, reply).
                                     filter (\<lambda>i. item_success i = JBool False) (spec_returned_items reply)
                                     @ (case spec_chunk_failure ''Creation'' reply of
                                          Some m \<Rightarrow> map (\<lambda>x. failed_entry (js_or (rec_id x) (JStr ''unknown'')) m) chunk
                                        | None \<Rightarrow> [])) H)
        \<and> ((\<forall>(chunk, reply) \<in> set H. spec_chunk_failure ''Creation'' reply = None
                \<longrightarrow> length (spec_returned_items reply) = length chunk)
             \<longrightarrow> successCount r + failedCount r = total r))
      \<or> (create_recordsWithIterator E1 (Some rs) limit c1 = None
          \<and> (case limit of None \<Rightarrow> 100 | Some l \<Rightarrow> l) \<le> 0))
   \<and> ((\<exists>chunks H r c'.
          chunk_loop rs (case limit of None \<Rightarrow> 100 | Some l \<Rightarrow> l) 0 [] = Some chunks
        \<and> H = chunk_calls (update_records E1) chunks c1
        \<and> update_recordsWithIterator E1 (Some rs) limit c1 = Some (Inr r, c')
        \<and> total r = length rs
        \<and> successCount r = length (success r) \<and> failedCount r = length (failed r)
        \<and> success r = concat (map (\<lambda>(chunk, reply).
                                      filter (\<lambda>i. truthy (item_success i)) (spec_returned_items reply)) H)
        \<and> failed r = concat (map (\<lambda>(chunk, reply).
                                     filter (\<lambda>i. \<not> truthy (item_success i)) (spec_returned_items reply)
                                     @ (case spec_chunk_failure ''Update'' reply of
                                          Some m \<Rightarrow> map (\<lambda>x. failed_entry (js_or (rec_id x) (JStr ''unknown'')) m) chunk
                                        | None \<Rightarrow> [])) H)
        \<and> ((\<forall>(chunk, reply) \<in> set H. spec_chunk_failure ''Update'' reply = None
                \<longrightarrow> length (spec_returned_items reply) = length chunk)
             \<longrightarrow> successCount r + failedCount r = total r))
      \<or> (update_recordsWithIterator E1 (Some rs) limit c1 = None
          \<and> (case limit of None \<Rightarrow> 100 | Some l \<Rightarrow> l) \<le> 0))
   \<and> ((\<exists>chunks H r c'.
          chunk_loop ids (case limit of None \<Rightarrow> 100 | Some l \<Rightarrow> l) 0 [] = Some chunks
        \<and> H = chunk_calls (delete_records E2) chunks c2
        \<and> delete_recordsWithIterator E2 (Some ids) limit c2 = Some (Inr r, c')
        \<and> total r = length ids
        \<and> successCount r = length (success r) \<and> failedCount r = length (failed r)
        \<and> success r = concat (map (\<lambda>(chunk, reply).
                                      filter (\<lambda>i. truthy (item_success i)) (spec_returned_items reply)) H)
        \<and> failed r = concat (map (\<lambda>(chunk, reply).
                                     filter (\<lambda>i. \<not> truthy (item_success i)) (spec_returned_items reply)
                                     @ (case spec_chunk_failure ''Delete'' reply of
                                          Some m \<Rightarrow> map (\<lambda>x. failed_entry (JStr x) m) chunk
                                        | None \<Rightarrow> [])) H)
        \<and> ((\<forall>(chunk, reply) \<in> set H. spec_chunk_failure ''Delete'' reply = None
                \<longrightarrow> length (spec_returned_items reply) = length chunk)
             \<longrightarrow> successCount r + failedCount r = total r))
      \<or> (delete_recordsWithIterator E2 (Some ids) limit c2 = None
          \<and> (case limit of None \<Rightarrow> 100 | Some l \<Rightarrow> l) \<le> 0))
   \<and> (\<exists>chunks H r c'.
          chunk_loop ids 200 0 [] = Some chunks
        \<and> H = chunk_calls (\<lambda>chunk. executeWithRetry (sleep_client E3) (exchange_attempt E3 chunk)
                                     (case retryOptions of None \<Rightarrow> no_options | Some ro \<Rightarrow> ro))
                  chunks c3
        \<and> department_batchExchange E3 (Some ids) retryOptions c3 = Some (Inr r, c')
        \<and> total r = length ids
        \<and> successCount r = length (success r) \<and> failedCount r = length (failed r)
        \<and> success r = concat (map (\<lambda>(chunk, reply). case reply of Inr ms \<Rightarrow> ms | Inl e \<Rightarrow> []) H)
        \<and> failed r = concat (map (\<lambda>(chunk, reply).
                                     case reply of
                                       Inr ms \<Rightarrow> []
                                     | Inl e \<Rightarrow>
                                         map (\<lambda>x. \<lparr>failed_id = x,
                                                    failed_error = (case e of Some e \<Rightarrow> message e
                                                                    | None \<Rightarrow> ''undefined'')\<rparr>)
                                             chunk) H)
        \<and> ((\<forall>(chunk, reply) \<in> set H. \<forall>ms. reply = Inr ms \<longrightarrow> length ms = length chunk)
             \<longrightarrow> successCount r + failedCount r = total r))
   \<and> (\<exists>chunks H r c'.
          chunk_loop ids 200 0 [] = Some chunks
        \<and> H = chunk_calls (\<lambda>chunk. executeWithRetry (sleep_client E3) (exchange_attempt E3 chunk)
                                     (case retryOptions of None \<Rightarrow> no_options | Some ro \<Rightarrow> ro))
                  chunks c3
        \<and> user_batchExchange E3 (Some ids) retryOptions c3 = Some (Inr r, c')
        \<and> total r = length ids
        \<and> successCount r = length (success r) \<and> failedCount r = length (failed r)
        \<and> success r = concat (map (\<lambda>(chunk, reply). case reply of Inr ms \<Rightarrow> ms | Inl e \<Rightarrow> []) H)
        \<and> failed r = concat (map (\<lambda>(chunk, reply).
                                     case reply of
                                       Inr ms \<Rightarrow> []
                                     | Inl e \<Rightarrow>
                                         map (\<lambda>x. \<lparr>failed_id = x,
                                                    failed_error = (case e of Some e \<Rightarrow> message e
                                                                    | None \<Rightarrow> ''undefined'')\<rparr>)
                                             chunk) H)
        \<and> ((\<forall>(chunk, reply) \<in> set H. \<forall>ms. reply = Inr ms \<longrightarrow> length ms = length chunk)
             \<longrightarrow> successCount r + failedCount r = total r))
   \<and> exchange_attempt E3 chunk c4
       = (case api_call E3 chunk c4 of
            (Inl error, c') \<Rightarrow> (Inl error, c')
          | (Inr response, c') \<Rightarrow>
              if code response \<noteq> ''0''
              then (Inl (OtherError None
                      (str_or (msg response) (''Exchange failed with code '' @ code response))),
                    c')
              else (Inr (case exchange_data response of Some d \<Rightarrow> d | None \<Rightarrow> []), c'))
   \<and> (api_call E3 chunk c4 = (Inr denied, c5) \<and> code denied \<noteq> ''0''
        \<and> 0 \<le> (case maxRetries (case retryOptions of None \<Rightarrow> no_options | Some ro \<Rightarrow> ro) of
                   None \<Rightarrow> 3 | Some m \<Rightarrow> m)
      \<longrightarrow> executeWithRetry (sleep_client E3) (exchange_attempt E3 chunk)
            (case retryOptions of None \<Rightarrow> no_options | Some ro \<Rightarrow> ro) c4
          = (Inl (Some (OtherError None
               (str_or (msg denied) (''Exchange failed with code '' @ code denied)))), c5))"
  using records_iterator_run
          [where call = "\<lambda>chunk. functionLimiter (create_records E1 chunk)"
            and p = "\<lambda>i. item_success i \<noteq> JBool False"
            and id_of = "\<lambda>x. js_or (rec_id x) (JStr ''unknown'')"
            and what = "''Creation''" and param = "''records''" and rs = rs and c = c1
            and limit = limit]
        records_iterator_run
          [where call = "update_records E1"
            and p = "\<lambda>i. truthy (item_success i)"
            and id_of = "\<lambda>x. js_or (rec_id x) (JStr ''unknown'')"
            and what = "''Update''" and param = "''records''" and rs = rs and c = c1
            and limit = limit]
        records_iterator_run
          [where call = "delete_records E2"
            and p = "\<lambda>i. truthy (item_success i)"
            and id_of = "\<lambda>x. JStr x"
            and what = "''Delete''" and param = "''ids''" and rs = ids and c = c2
            and limit = limit]
        batchExchange_run[of ids E3 retryOptions c3 "''department_ids''"]
        batchExchange_run[of ids E3 retryOptions c3 "''user_ids''"]
        exchange_attempt_api[of E3 chunk c4]
        exchange_code_throws[of E3 chunk c4 denied c5
          "case retryOptions of None \<Rightarrow> no_options | Some ro \<Rightarrow> ro"]
  unfolding create_recordsWithIterator_def update_recordsWithIterator_def
    delete_recordsWithIterator_def department_batchExchange_def user_batchExchange_def
  by simp

lemma chunk_loop_single:
  assumes "rs \<noteq> []" and "int (length rs) \<le> l"
  shows "chunk_loop rs l 0 [] = Some [rs]"
proof -
  have pos: "0 < l" using assms by (cases rs) auto
  have sl: "js_slice rs 0 (0 + l) = rs"
    using assms pos by (simp add: js_slice_def)
  have "chunk_loop rs l 0 [] = chunk_loop rs l (0 + l) ([] @ [js_slice rs 0 (0 + l)])"
    using assms(1) by (subst chunk_loop.simps) simp
  also have "\<dots> = Some [rs]"
    using assms(2) sl by (subst chunk_loop.simps) simp
  finally show ?thesis .
qed

lemma single3: "chunk_loop three_records 100 0 [] = Some [three_records]"
  by (rule chunk_loop_single) (simp_all add: three_records_def)

lemma single2: "chunk_loop [''d1'', ''d2''] 200 0 [] = Some [[''d1'', ''d2'']]"
  by (rule chunk_loop_single) simp_all

lemma single_abc: "chunk_loop [''a'', ''b'', ''c''] 200 0 [] = Some [[''a'', ''b'', ''c'']]"
  by (rule chunk_loop_single) simp_all

text \<open>
  The claim as stated fails: the entries of a successful chunk are the items the server
  returned, not the items submitted. Three records created with a reply that lists no
  item give \<open>0 + 0\<close> against a total of 3; two ids exchanged with a reply that maps one
  of them give \<open>1 + 0\<close> against a total of 2.
\<close>

theorem batch_counts_counterexample:
  "create_recordsWithIterator (scripted_env (\<lambda>k. Inr (reply_items [])))
       (Some three_records) None fresh_client
     = Some (Inr \<lparr>success = [], failed = [], successCount = 0, failedCount = 0, total = 3\<rparr>,
             \<lparr>disableTokenCache = False, accessToken = Some ''t1'', expireTime = Some 7200000,
              trace = [TokenRequest, ApiRequest three_records], remote = 1\<rparr>)
   \<and> department_batchExchange (scripted_env (\<lambda>k. Inr (reply_mappings [''m1''])))
       (Some [''d1'', ''d2'']) None fresh_client
     = Some (Inr \<lparr>success = [''m1''], failed = [], successCount = 1, failedCount = 0,
                  total = 2\<rparr>,
             \<lparr>disableTokenCache = False, accessToken = Some ''t1'', expireTime = Some 7200000,
              trace = [TokenRequest, ApiRequest [''d1'', ''d2'']], remote = 1\<rparr>)"
proof -
  have "length three_records = 3" by (simp add: three_records_def)
  then show ?thesis
    by (simp add: create_recordsWithIterator_def department_batchExchange_def loop_simps
        unit_call_simps single3 single2 reply_items_def reply_mappings_def)
qed

lemma failures_create_calls:
  "chunk_calls (\<lambda>chunk. functionLimiter (create_records (scripted_env mixed_failures) chunk))
     [[x1, x2], [x3]] fresh_client
   = [([x1, x2], Inr (reply_items [item_true, item_false])),
      ([x3], Inl (AxiosError (Some ''ERR_BAD_RESPONSE'') (Some 503) ''Service Unavailable''))]"
  by (simp add: unit_call_simps mixed_failures_def)

lemma not_an_array_update_calls:
  "chunk_calls (update_records (scripted_env not_an_array)) [[x1, x2], [x3]] fresh_client
   = [([x1, x2], not_an_array 0), ([x3], not_an_array 1)]"
  by (simp add: unit_call_simps not_an_array_def)

lemma echo_delete_calls:
  "chunk_calls (delete_records (echo_env deleted)) [[x1, x2], [x3]] fresh_client
   = [([x1, x2], Inr (reply_items [deleted x1, deleted x2])),
      ([x3], Inr (reply_items [deleted x3]))]"
  by (simp add: unit_call_simps echo_env_def)

lemma not_an_array_failure:
  "spec_chunk_failure what (not_an_array k) = Some filter_type_error"
  "spec_returned_items (not_an_array k) = []"
  by (simp_all add: spec_chunk_failure_def spec_returned_items_def not_an_array_def)

lemma thrown_failure:
  "spec_chunk_failure what (Inl e) = Some (message e)"
  "spec_returned_items (Inl e) = []"
  by (simp_all add: spec_chunk_failure_def spec_returned_items_def)

lemma echo_exchange_calls:
  "chunk_calls (\<lambda>chunk. executeWithRetry (sleep_client (echo_exchange_env (\<lambda>i. i)))
                          (exchange_attempt (echo_exchange_env (\<lambda>i. i)) chunk) no_options)
     [[''a'', ''b'', ''c'']] fresh_client
   = [([''a'', ''b'', ''c''], Inr [''a'', ''b'', ''c''])]"
  by (simp add: loop_simps unit_call_simps echo_exchange_env_def reply_mappings_def)

lemma denied_exchange_calls:
  "chunk_calls (\<lambda>chunk. executeWithRetry (sleep_client (scripted_env exchange_denied))
                          (exchange_attempt (scripted_env exchange_denied) chunk) no_options)
     [[''a'', ''b'', ''c'']] fresh_client
   = [([''a'', ''b'', ''c''], Inl (Some (OtherError None ''denied'')))]"
  by (simp add: loop_simps unit_call_simps exchange_denied_def str_or_def isRetryableError_def)

text \<open>Three items: created in chunks of two against a server that fails the second
  chunk with an HTTP 503; updated against a server whose \<open>items\<close> is not an array;
  deleted in chunks of two and exchanged against servers that answer item by item;
  exchanged against a server that answers with the code \<open>'1'\<close>.\<close>

theorem batch_counts_witness:
  "(\<exists>r c'. create_recordsWithIterator (scripted_env mixed_failures) (Some three_records)
              (Some 2) fresh_client = Some (Inr r, c')
       \<and> success r = [item_true]
       \<and> failed r = [item_false, failed_entry (JStr ''c'') ''Service Unavailable'']
       \<and> total r = 3 \<and> successCount r + failedCount r = 3)
   \<and> (\<exists>r c'. update_recordsWithIterator (scripted_env not_an_array) (Some three_records)
              (Some 2) fresh_client = Some (Inr r, c')
       \<and> success r = []
       \<and> failed r = [failed_entry (JStr ''a'') filter_type_error,
                      failed_entry (JStr ''b'') filter_type_error,
                      failed_entry (JStr ''c'') filter_type_error]
       \<and> total r = 3 \<and> successCount r + failedCount r = 3)
   \<and> (\<exists>r c'. delete_recordsWithIterator (echo_env deleted) (Some [''a'', ''b'', ''c''])
              (Some 2) fresh_client = Some (Inr r, c')
       \<and> success r = [deleted ''a'', deleted ''b'', deleted ''c''] \<and> failed r = []
       \<and> total r = 3 \<and> successCount r + failedCount r = 3)
   \<and> (\<exists>r c'. department_batchExchange (echo_exchange_env (\<lambda>i. i)) (Some [''a'', ''b'', ''c''])
              None fresh_client = Some (Inr r, c')
       \<and> success r = [''a'', ''b'', ''c''] \<and> failed r = []
       \<and> total r = 3 \<and> successCount r + failedCount r = 3)
   \<and> (\<exists>r c'. user_batchExchange (scripted_env exchange_denied) (Some [''a'', ''b'', ''c''])
              None fresh_client = Some (Inr r, c')
       \<and> success r = ([] :: string list)
       \<and> failed r = [\<lparr>failed_id = ''a'', failed_error = ''denied''\<rparr>,
                      \<lparr>failed_id = ''b'', failed_error = ''denied''\<rparr>,
                      \<lparr>failed_id = ''c'', failed_error = ''denied''\<rparr>]
       \<and> total r = 3 \<and> successCount r + failedCount r = 3)
   \<and> executeWithRetry (sleep_client (scripted_env exchange_denied))
         (exchange_attempt (scripted_env exchange_denied) [''a'', ''b'', ''c'']) no_options
         fresh_client
       = (Inl (Some (OtherError None ''denied'')),
          \<lparr>disableTokenCache = False, accessToken = Some ''t1'', expireTime = Some 7200000,
           trace = [TokenRequest, ApiRequest [''a'', ''b'', ''c'']], remote = 1\<rparr>)"
proof -
  note run1 = batch_counts
         [of three_records "Some 2" "scripted_env mixed_failures" fresh_client
             "[''a'', ''b'', ''c'']" "echo_env deleted" fresh_client
             "echo_exchange_env (\<lambda>i. i)" None fresh_client]
  note run2 = batch_counts
         [of three_records "Some 2" "scripted_env not_an_array" fresh_client
             "[''a'', ''b'', ''c'']" "echo_env deleted" fresh_client
             "scripted_env exchange_denied" None fresh_client]
  note run3 = batch_counts
         [of three_records "Some 2" "scripted_env not_an_array" fresh_client
             "[''a'', ''b'', ''c'']" "echo_env deleted" fresh_client
             "scripted_env exchange_denied" None fresh_client
             "[''a'', ''b'', ''c'']" fresh_client
             "\<lparr>code = ''1'', msg = ''denied'', exchange_data = None\<rparr>"
             "\<lparr>disableTokenCache = False, accessToken = Some ''t1'',
               expireTime = Some 7200000,
               trace = [TokenRequest, ApiRequest [''a'', ''b'', ''c'']], remote = 1\<rparr>"]
  have created: "\<exists>r c'. create_recordsWithIterator (scripted_env mixed_failures)
              (Some three_records) (Some 2) fresh_client = Some (Inr r, c')
       \<and> success r = [item_true]
       \<and> failed r = [item_false, failed_entry (JStr ''c'') ''Service Unavailable'']
       \<and> total r = 3 \<and> successCount r + failedCount r = 3"
    using run1[THEN conjunct1]
    by (simp add: three_records_def chunks_of_three failures_create_calls
          returned_reply_items no_failure_reply_items thrown_failure
          item_true_def item_false_def js_or_def del: chunk_calls.simps)
       auto
  have updated: "\<exists>r c'. update_recordsWithIterator (scripted_env not_an_array)
              (Some three_records) (Some 2) fresh_client = Some (Inr r, c')
       \<and> success r = []
       \<and> failed r = [failed_entry (JStr ''a'') filter_type_error,
                      failed_entry (JStr ''b'') filter_type_error,
                      failed_entry (JStr ''c'') filter_type_error]
       \<and> total r = 3 \<and> successCount r + failedCount r = 3"
    using run2[THEN conjunct2, THEN conjunct1]
    by (simp add: three_records_def chunks_of_three not_an_array_update_calls
          not_an_array_failure js_or_def del: chunk_calls.simps)
       auto
  have removed: "\<exists>r c'. delete_recordsWithIterator (echo_env deleted)
              (Some [''a'', ''b'', ''c'']) (Some 2) fresh_client = Some (Inr r, c')
       \<and> success r = [deleted ''a'', deleted ''b'', deleted ''c''] \<and> failed r = []
       \<and> total r = 3 \<and> successCount r + failedCount r = 3"
    using run1[THEN conjunct2, THEN conjunct2, THEN conjunct1]
    by (simp add: chunks_of_three echo_delete_calls returned_reply_items
          no_failure_reply_items deleted_def del: chunk_calls.simps)
       auto
  have departments: "\<exists>r c'. department_batchExchange (echo_exchange_env (\<lambda>i. i))
              (Some [''a'', ''b'', ''c'']) None fresh_client = Some (Inr r, c')
       \<and> success r = [''a'', ''b'', ''c''] \<and> failed r = []
       \<and> total r = 3 \<and> successCount r + failedCount r = 3"
    using run1[THEN conjunct2, THEN conjunct2, THEN conjunct2, THEN conjunct1]
    by (simp add: single_abc echo_exchange_calls del: chunk_calls.simps) auto
  have users: "\<exists>r c'. user_batchExchange (scripted_env exchange_denied)
              (Some [''a'', ''b'', ''c'']) None fresh_client = Some (Inr r, c')
       \<and> success r = ([] :: string list)
       \<and> failed r = [\<lparr>failed_id = ''a'', failed_error = ''denied''\<rparr>,
                      \<lparr>failed_id = ''b'', failed_error = ''denied''\<rparr>,
                      \<lparr>failed_id = ''c'', failed_error = ''denied''\<rparr>]
       \<and> total r = 3 \<and> successCount r + failedCount r = 3"
    using run2[THEN conjunct2, THEN conjunct2, THEN conjunct2, THEN conjunct2, THEN conjunct1]
    by (simp add: single_abc denied_exchange_calls del: chunk_calls.simps) auto
  have retried: "executeWithRetry (sleep_client (scripted_env exchange_denied))
         (exchange_attempt (scripted_env exchange_denied) [''a'', ''b'', ''c'']) no_options
         fresh_client
       = (Inl (Some (OtherError None ''denied'')),
          \<lparr>disableTokenCache = False, accessToken = Some ''t1'', expireTime = Some 7200000,
           trace = [TokenRequest, ApiRequest [''a'', ''b'', ''c'']], remote = 1\<rparr>)"
    using run3[THEN conjunct2, THEN conjunct2, THEN conjunct2, THEN conjunct2, THEN conjunct2,
               THEN conjunct2]
    by (simp add: unit_call_simps exchange_denied_def no_options_def str_or_def)
  from created updated removed departments users retried show ?thesis by (intro conjI)
qed


subsection \<open>Cursor pagination\<close>










subsection \<open>Offset pagination\<close>

text \<open>What holds of every value a loop returns, by the induction rule of the partial
  function: the \<open>do ... while\<close> loop leaves with at least \<open>total\<close> items, the
  \<open>while (hasMore)\<close> loop with \<open>hasMore\<close> false.\<close>

lemma page_loop_exit:
  assumes "page_loop fetch limit results offset total' page c = Some y"
  shows "\<forall>t rs c'. y = (Inr (t, rs), c') \<longrightarrow> t \<le> int (length rs)"
  by (rule page_loop.raw_induct
        [where P = "\<lambda>fetch limit results offset total' page c y.
                      \<forall>t rs c'. y = (Inr (t, rs), c') \<longrightarrow> t \<le> int (length rs)",
         OF _ assms])
     (auto split: prod.splits sum.splits if_splits)

lemma object_list_loop_exit:
  assumes "object_list_loop E limit results offset total' hasMore page failed' c = Some y"
  shows "\<forall>r off t h p f c'. y = ((r, off, t, h, p, f), c') \<longrightarrow> h = False"
  by (rule object_list_loop.raw_induct
        [where P = "\<lambda>E limit results offset total' hasMore page failed' c y.
                      \<forall>r off t h p f c'. y = ((r, off, t, h, p, f), c') \<longrightarrow> h = False",
         OF _ assms])
     (auto split: prod.splits sum.splits if_splits, blast+)

text \<open>If every fetch returns a non-success code, a run that starts with \<open>hasMore\<close> true
  returns nothing.\<close>

lemma object_list_loop_diverges:
  assumes bad: "\<forall>offset c. \<exists>res c'. object_list E offset limit c = (Inr res, c') \<and> code res \<noteq> ''0''"
    and run: "object_list_loop E limit results offset total' True page failed' c = Some y"
  shows False
proof -
  have "E' = E \<and> limit' = limit \<and> hasMore \<longrightarrow> False"
    if "object_list_loop E' limit' results offset total' hasMore page failed' c = Some y"
    for E' limit' results offset total' hasMore page failed' c y
  proof (rule object_list_loop.raw_induct
          [where P = "\<lambda>E' limit' results offset total' hasMore page failed' c y.
                        E' = E \<and> limit' = limit \<and> hasMore \<longrightarrow> False",
           OF _ that], intro impI, elim conjE)
    fix loop Ea la rs off tot hm pg fl ca ya
    assume IH: "\<And>a b c d e f g h i y. loop a b c d e f g h i = Some y
                  \<Longrightarrow> a = E \<and> b = limit \<and> f \<longrightarrow> False"
      and eqs: "Ea = E" "la = limit" and hm: hm
      and step: "(if hm
           then case object_list Ea off la ca of
                (Inl error, c') \<Rightarrow>
                  loop Ea la rs (off + la) tot
                   (if tot = 0 then False else off + la < tot) (pg + 1)
                   (fl @ [\<lparr>fp_offset = off, fp_limit = la, fp_code = ''1'',
                           fp_msg = message error\<rparr>]) c'
                | (Inr res, c') \<Rightarrow>
                    if code res \<noteq> ''0''
                    then loop Ea la rs (off + la) tot hm (pg + 1)
                          (fl @ [\<lparr>fp_offset = off, fp_limit = la, fp_code = code res,
                                  fp_msg = str_or (msg res)
                                    (''Query failed with code '' @ code res)\<rparr>]) c'
                    else loop Ea la (rs @ items res) (off + la) (list_total res)
                          (has_more res = True) (pg + 1) fl c'
           else Some ((rs, off, tot, hm, pg, fl), ca)) = Some ya"
    from bad obtain res c' where o: "object_list E off limit ca = (Inr res, c')"
      "code res \<noteq> ''0''" by blast
    with step eqs hm have "loop E limit rs (off + limit) tot True (pg + 1)
          (fl @ [\<lparr>fp_offset = off, fp_limit = limit, fp_code = code res,
                  fp_msg = str_or (msg res) (''Query failed with code '' @ code res)\<rparr>]) c'
        = Some ya" by simp
    from IH[OF this] show False by simp
  qed
  from this[OF run] show False by simp
qed


lemma ensureTokenValid_succeeds:
  assumes "\<forall>w. \<exists>res w'. token_endpoint E w = (Inr res, w') \<and> token_code res = ''0''"
  shows "\<exists>c'. ensureTokenValid E c = (Inr (), c')"
proof -
  have "\<exists>c'. getAccessToken E c = (Inr (), c')"
  proof -
    from assms obtain res w' where "token_endpoint E (remote c) = (Inr res, w')"
      "token_code res = ''0''" by blast
    then show ?thesis by (simp add: getAccessToken_def axios_token_def)
  qed
  then show ?thesis by (auto simp: ensureTokenValid_def)
qed

lemma object_list_denied:
  assumes tok: "\<forall>w. \<exists>res w'. token_endpoint E w = (Inr res, w') \<and> token_code res = ''0''"
    and api: "\<forall>req w. \<exists>res w'. api_endpoint E req w = (Inr res, w') \<and> code res \<noteq> ''0''"
  shows "\<exists>res c'. object_list E offset limit c = (Inr res, c') \<and> code res \<noteq> ''0''"
proof -
  from ensureTokenValid_succeeds[OF tok] obtain c1 where e: "ensureTokenValid E c = (Inr (), c1)"
    by blast
  from api obtain res w' where
    a: "api_endpoint E \<lparr>req_offset = offset, req_limit = limit\<rparr> (remote c1) = (Inr res, w')"
    "code res \<noteq> ''0''" by blast
  show ?thesis using e a by (simp add: object_list_def api_call_def axios_api_def)
qed

text \<open>
  Claim C3 says that in \<open>object.listWithIterator\<close> a failed page fetch records a
  \<open>FailedPage\<close>, advances the offset and lets the iteration go on, and that a fetch
  failing while the total is still unknown ends the iteration instead of looping
  forever. The \<open>catch\<close> branch does end it (\<open>if (total === 0) hasMore = false\<close>, lemma
  \<open>object_loop_thrown\<close> below); the branch for a non-success code records the page,
  advances and continues, and leaves \<open>hasMore\<close> as it is (lemma \<open>object_loop_code\<close>).
  So the code does not do what the claim says: against a server that answers every list
  request with a non-success code, while the credential endpoint works,
  \<open>object.listWithIterator\<close> never returns, whatever the limit and the client.
\<close>

theorem object_list_iterator_never_returns:
  assumes "\<forall>w. \<exists>res w'. token_endpoint E w = (Inr res, w') \<and> token_code res = ''0''"
    and "\<forall>req w. \<exists>res w'. api_endpoint E req w = (Inr res, w') \<and> code res \<noteq> ''0''"
  shows "object_listWithIterator E limit c = None"
proof -
  let ?l = "case limit of None \<Rightarrow> 50 | Some l \<Rightarrow> l"
  have bad: "\<forall>offset c. \<exists>res c'. object_list E offset ?l c = (Inr res, c') \<and> code res \<noteq> ''0''"
    using object_list_denied[OF assms] by blast
  have "object_list_loop E ?l [] 0 0 True 0 [] c = None"
  proof (cases "object_list_loop E ?l [] 0 0 True 0 [] c")
    case None
    then show ?thesis .
  next
    case (Some y)
    from object_list_loop_diverges[OF bad this] show ?thesis ..
  qed
  then show ?thesis by (simp add: object_listWithIterator_def)
qed

text \<open>The server that always answers with the code \<open>'1'\<close>, from a fresh client.\<close>

theorem object_list_iterator_never_returns_witness:
  "object_listWithIterator (scripted_env always_denied) None
     (fresh_client :: (list_request, nat) client) = None"
proof -
  have "\<forall>w. \<exists>res w'. token_endpoint (scripted_env always_denied
              :: (list_request, nat api_response, nat) env) w = (Inr res, w')
            \<and> token_code res = ''0''"
    by (simp add: scripted_env_def token_ok_def)
  moreover have "\<forall>req w. \<exists>res w'. api_endpoint (scripted_env always_denied
              :: (list_request, nat api_response, nat) env) req w = (Inr res, w')
            \<and> code res \<noteq> ''0''"
    by (simp add: scripted_env_def always_denied_def)
  ultimately show ?thesis by (rule object_list_iterator_never_returns)
qed


lemma object_list_has_more:
  assumes "object_list E offset limit c = (Inr res, c')"
  shows "has_more res = (offset + limit < list_total res)"
  using assms by (auto simp: object_list_def split: prod.splits sum.splits)

lemma object_loop_stop:
  "object_list_loop E limit results offset total' False page failed' c
     = Some ((results, offset, total', False, page, failed'), c)"
  by (subst object_list_loop.simps) simp

lemma object_loop_success:
  assumes "object_list E offset limit c = (Inr res, c')" and "code res = ''0''"
  shows "object_list_loop E limit results offset total' True page failed' c
       = object_list_loop E limit (results @ items res) (offset + limit) (list_total res)
           (offset + limit < list_total res) (page + 1) failed' c'"
  using assms object_list_has_more[OF assms(1)] by (subst object_list_loop.simps) simp

lemma object_loop_thrown:
  assumes "object_list E offset limit c = (Inl error, c')"
  shows "object_list_loop E limit results offset total' True page failed' c
       = object_list_loop E limit results (offset + limit) total'
           (total' \<noteq> 0 \<and> offset + limit < total') (page + 1)
           (failed' @ [\<lparr>fp_offset = offset, fp_limit = limit, fp_code = ''1'',
                        fp_msg = message error\<rparr>]) c'"
  using assms by (subst object_list_loop.simps) auto

lemma object_loop_code:
  assumes "object_list E offset limit c = (Inr res, c')" and "code res \<noteq> ''0''"
  shows "object_list_loop E limit results offset total' True page failed' c
       = object_list_loop E limit results (offset + limit) total' True (page + 1)
           (failed' @ [\<lparr>fp_offset = offset, fp_limit = limit, fp_code = code res,
                        fp_msg = str_or (msg res) (''Query failed with code '' @ code res)\<rparr>])
           c'"
  using assms by (subst object_list_loop.simps) simp

lemma page_loop_step:
  assumes "functionLimiter (fetch \<lparr>req_offset = offset, req_limit = limit\<rparr>) c = (Inr res, c')"
    and "code res = ''0''"
  shows "page_loop fetch limit results offset total' page c
       = (if int (length (results @ (case data_items res of Some its \<Rightarrow> its | None \<Rightarrow> [])))
               < (if page = 0 then (case data_total res of Some t \<Rightarrow> t | None \<Rightarrow> 0) else total')
          then page_loop fetch limit
                 (results @ (case data_items res of Some its \<Rightarrow> its | None \<Rightarrow> []))
                 (offset + limit)
                 (if page = 0 then (case data_total res of Some t \<Rightarrow> t | None \<Rightarrow> 0) else total')
                 (page + 1) c'
          else Some (Inr ((if page = 0 then (case data_total res of Some t \<Rightarrow> t | None \<Rightarrow> 0)
                           else total'),
                          results @ (case data_items res of Some its \<Rightarrow> its | None \<Rightarrow> [])),
                     c'))"
  using assms by (subst page_loop.simps) simp

lemma page_loop_thrown:
  assumes "functionLimiter (fetch \<lparr>req_offset = offset, req_limit = limit\<rparr>) c = (Inl error, c')"
  shows "page_loop fetch limit results offset total' page c = Some (Inl error, c')"
  using assms by (subst page_loop.simps) simp

lemma page_loop_code:
  assumes "functionLimiter (fetch \<lparr>req_offset = offset, req_limit = limit\<rparr>) c = (Inr res, c')"
    and "code res \<noteq> ''0''"
  shows "page_loop fetch limit results offset total' page c
       = Some (Inl (OtherError None (str_or (msg res) (''Fetch failed with code '' @ code res))),
               c')"
  using assms by (subst page_loop.simps) simp

lemma page_loop_first:
  "page_loop fetch limit [] 0 0 0 c
     = (case fetch \<lparr>req_offset = 0, req_limit = limit\<rparr> c of
          (Inl thrown, c') \<Rightarrow> Some (Inl thrown, c')
        | (Inr first, c') \<Rightarrow>
            if code first \<noteq> ''0''
            then Some (Inl (OtherError None
                         (str_or (msg first) (''Fetch failed with code '' @ code first))), c')
            else if int (length (case data_items first of Some its \<Rightarrow> its | None \<Rightarrow> []))
                      < (case data_total first of Some t \<Rightarrow> t | None \<Rightarrow> 0)
            then page_loop fetch limit
                   (case data_items first of Some its \<Rightarrow> its | None \<Rightarrow> []) limit
                   (case data_total first of Some t \<Rightarrow> t | None \<Rightarrow> 0) 1 c'
            else Some (Inr ((case data_total first of Some t \<Rightarrow> t | None \<Rightarrow> 0),
                            (case data_items first of Some its \<Rightarrow> its | None \<Rightarrow> [])),
                       c'))"
  by (subst page_loop.simps) (simp add: functionLimiter_def split: prod.splits sum.splits)

text \<open>
  Claim C8, as amended. \<open>object.listWithIterator\<close> leaves its loop exactly when
  \<open>hasMore\<close> is false: with \<open>hasMore\<close> false it returns at once, and whatever it returns
  has \<open>hasMore\<close> false; a successful page sets \<open>hasMore\<close> to \<open>offset + limit < total\<close>, a
  thrown fetch to \<open>total \<noteq> 0\<close> and \<open>offset + limit < total\<close>, and a non-success code leaves
  it true. \<open>page.listWithIterator\<close>, \<open>global.options.listWithIterator\<close> and
  \<open>global.variables.listWithIterator\<close> have no \<open>hasMore\<close> and never compare the offset
  with the total: after a successful page they fetch the next one exactly when the
  number of items accumulated is below the total the first page reported, and whatever
  they return has at least that many items. On the first page whose fetch throws or
  returns a code other than \<open>'0'\<close> they stop with that exception, at whatever page it
  happens. Each of the three starts with a request at offset 0 with the limit (100 when
  absent or 0), and goes on from its reply as said.
\<close>

theorem offset_iterators_termination:
  "object_list_loop E limit results offset total' False page failed' c
     = Some ((results, offset, total', False, page, failed'), c)
   \<and> (object_list_loop E limit results offset total' hasMore page failed' c
         = Some ((r, off, t, h, p, f), c1) \<longrightarrow> h = False)
   \<and> (object_list E offset limit c = (Inr res, c') \<and> code res = ''0'' \<longrightarrow>
        object_list_loop E limit results offset total' True page failed' c
          = object_list_loop E limit (results @ items res) (offset + limit) (list_total res)
              (offset + limit < list_total res) (page + 1) failed' c')
   \<and> (object_list E offset limit c = (Inl error, c') \<longrightarrow>
        object_list_loop E limit results offset total' True page failed' c
          = object_list_loop E limit results (offset + limit) total'
              (total' \<noteq> 0 \<and> offset + limit < total') (page + 1)
              (failed' @ [\<lparr>fp_offset = offset, fp_limit = limit, fp_code = ''1'',
                           fp_msg = message error\<rparr>]) c')
   \<and> (object_list E offset limit c = (Inr res, c') \<and> code res \<noteq> ''0'' \<longrightarrow>
        object_list_loop E limit results offset total' True page failed' c
          = object_list_loop E limit results (offset + limit) total' True (page + 1)
              (failed' @ [\<lparr>fp_offset = offset, fp_limit = limit, fp_code = code res,
                           fp_msg = str_or (msg res)
                                      (''Query failed with code '' @ code res)\<rparr>]) c')
   \<and> (api_call P \<lparr>req_offset = poffset, req_limit = plimit\<rparr> d = (Inr pres, d')
        \<and> code pres = ''0'' \<longrightarrow>
        page_loop (api_call P) plimit presults poffset ptotal ppage d
          = (if int (length (presults
                      @ (case data_items pres of Some its \<Rightarrow> its | None \<Rightarrow> [])))
                  < (if ppage = 0 then (case data_total pres of Some t \<Rightarrow> t | None \<Rightarrow> 0)
                     else ptotal)
             then page_loop (api_call P) plimit
                    (presults @ (case data_items pres of Some its \<Rightarrow> its | None \<Rightarrow> []))
                    (poffset + plimit)
                    (if ppage = 0 then (case data_total pres of Some t \<Rightarrow> t | None \<Rightarrow> 0)
                     else ptotal)
                    (ppage + 1) d'
             else Some (Inr ((if ppage = 0
                              then (case data_total pres of Some t \<Rightarrow> t | None \<Rightarrow> 0)
                              else ptotal),
                             presults
                             @ (case data_items pres of Some its \<Rightarrow> its | None \<Rightarrow> [])),
                        d')))
   \<and> (page_listWithIterator P lim0 d = Some (Inr (n, xs), d1) \<longrightarrow> n \<le> int (length xs))
   \<and> (global_options_listWithIterator P lim0 d = Some (Inr (n, xs), d1)
        \<longrightarrow> n \<le> int (length xs))
   \<and> (global_variables_listWithIterator P lim0 d = Some (Inr (n, xs), d1)
        \<longrightarrow> n \<le> int (length xs))
   \<and> (api_call P \<lparr>req_offset = poffset, req_limit = plimit\<rparr> d = (Inl perror, d')
        \<longrightarrow> page_loop (api_call P) plimit presults poffset ptotal ppage d
              = Some (Inl perror, d'))
   \<and> (api_call P \<lparr>req_offset = poffset, req_limit = plimit\<rparr> d = (Inr pres, d')
        \<and> code pres \<noteq> ''0''
        \<longrightarrow> page_loop (api_call P) plimit presults poffset ptotal ppage d
              = Some (Inl (OtherError None
                        (str_or (msg pres) (''Fetch failed with code '' @ code pres))), d'))
   \<and> page_listWithIterator P lim0 d
       = (case api_call P \<lparr>req_offset = 0, req_limit = limit_or_100 lim0\<rparr> d of
            (Inl thrown, d2) \<Rightarrow> Some (Inl thrown, d2)
          | (Inr first, d2) \<Rightarrow>
              if code first \<noteq> ''0''
              then Some (Inl (OtherError None
                           (str_or (msg first) (''Fetch failed with code '' @ code first))), d2)
              else if int (length (case data_items first of Some its \<Rightarrow> its | None \<Rightarrow> []))
                        < (case data_total first of Some t \<Rightarrow> t | None \<Rightarrow> 0)
              then page_loop (api_call P) (limit_or_100 lim0)
                     (case data_items first of Some its \<Rightarrow> its | None \<Rightarrow> [])
                     (limit_or_100 lim0)
                     (case data_total first of Some t \<Rightarrow> t | None \<Rightarrow> 0) 1 d2
              else Some (Inr ((case data_total first of Some t \<Rightarrow> t | None \<Rightarrow> 0),
                              (case data_items first of Some its \<Rightarrow> its | None \<Rightarrow> [])),
                         d2))
   \<and> global_options_listWithIterator P lim0 d
       = (case api_call P \<lparr>req_offset = 0, req_limit = limit_or_100 lim0\<rparr> d of
            (Inl thrown, d2) \<Rightarrow> Some (Inl thrown, d2)
          | (Inr first, d2) \<Rightarrow>
              if code first \<noteq> ''0''
              then Some (Inl (OtherError None
                           (str_or (msg first) (''Fetch failed with code '' @ code first))), d2)
              else if int (length (case data_items first of Some its \<Rightarrow> its | None \<Rightarrow> []))
                        < (case data_total first of Some t \<Rightarrow> t | None \<Rightarrow> 0)
              then page_loop (api_call P) (limit_or_100 lim0)
                     (case data_items first of Some its \<Rightarrow> its | None \<Rightarrow> [])
                     (limit_or_100 lim0)
                     (case data_total first of Some t \<Rightarrow> t | None \<Rightarrow> 0) 1 d2
              else Some (Inr ((case data_total first of Some t \<Rightarrow> t | None \<Rightarrow> 0),
                              (case data_items first of Some its \<Rightarrow> its | None \<Rightarrow> [])),
                         d2))
   \<and> global_variables_listWithIterator P lim0 d
       = (case api_call P \<lparr>req_offset = 0, req_limit = limit_or_100 lim0\<rparr> d of
            (Inl thrown, d2) \<Rightarrow> Some (Inl thrown, d2)
          | (Inr first, d2) \<Rightarrow>
              if code first \<noteq> ''0''
              then Some (Inl (OtherError None
                           (str_or (msg first) (''Fetch failed with code '' @ code first))), d2)
              else if int (length (case data_items first of Some its \<Rightarrow> its | None \<Rightarrow> []))
                        < (case data_total first of Some t \<Rightarrow> t | None \<Rightarrow> 0)
              then page_loop (api_call P) (limit_or_100 lim0)
                     (case data_items first of Some its \<Rightarrow> its | None \<Rightarrow> [])
                     (limit_or_100 lim0)
                     (case data_total first of Some t \<Rightarrow> t | None \<Rightarrow> 0) 1 d2
              else Some (Inr ((case data_total first of Some t \<Rightarrow> t | None \<Rightarrow> 0),
                              (case data_items first of Some its \<Rightarrow> its | None \<Rightarrow> [])),
                         d2))"
  apply (intro conjI)
  subgoal by (rule object_loop_stop)
  subgoal
    using object_list_loop_exit[of E limit results offset total' hasMore page failed' c
            "((r, off, t, h, p, f), c1)"]
    by blast
  subgoal using object_loop_success[of E offset limit c res c' results total' page failed'] by blast
  subgoal using object_loop_thrown[of E offset limit c error c' results total' page failed'] by blast
  subgoal using object_loop_code[of E offset limit c res c' results total' page failed'] by blast
  subgoal
    using page_loop_step[of "api_call P" poffset plimit d pres d' presults ptotal ppage]
    unfolding functionLimiter_def by blast
  subgoal
    using page_loop_exit[of "api_call P" "limit_or_100 lim0" "[]" 0 0 0 d "(Inr (n, xs), d1)"]
    unfolding page_listWithIterator_def by blast
  subgoal
    using page_loop_exit[of "api_call P" "limit_or_100 lim0" "[]" 0 0 0 d "(Inr (n, xs), d1)"]
    unfolding global_options_listWithIterator_def by blast
  subgoal
    using page_loop_exit[of "api_call P" "limit_or_100 lim0" "[]" 0 0 0 d "(Inr (n, xs), d1)"]
    unfolding global_variables_listWithIterator_def by blast
  subgoal
    using page_loop_thrown[of "api_call P" poffset plimit d perror d' presults ptotal ppage]
    unfolding functionLimiter_def by blast
  subgoal
    using page_loop_code[of "api_call P" poffset plimit d pres d' presults ptotal ppage]
    unfolding functionLimiter_def by blast
  subgoal unfolding page_listWithIterator_def by (rule page_loop_first)
  subgoal unfolding global_options_listWithIterator_def by (rule page_loop_first)
  subgoal unfolding global_variables_listWithIterator_def by (rule page_loop_first)
  done


text \<open>
  The claim as stated fails for the three \<open>do ... while\<close> iterators. With a limit of 2
  and a server that reports 3 items and returns one per page, \<open>page.listWithIterator\<close>
  has reached offset 4, beyond the total, after the second page, and still makes a third
  request. With a limit of 1 and a server that returns both of its 2 items at once,
  \<open>global.options.listWithIterator\<close> stops after one request, at offset 1, below the
  total.
\<close>

theorem offset_iterators_termination_counterexample:
  "page_listWithIterator (scripted_env short_pages) (Some 2) (holding ''t1'' 7200000)
     = Some (Inr (3, [0, 1, 2]),
             \<lparr>disableTokenCache = False, accessToken = Some ''t1'', expireTime = Some 7200000,
              trace = [ApiRequest \<lparr>req_offset = 0, req_limit = 2\<rparr>,
                       ApiRequest \<lparr>req_offset = 2, req_limit = 2\<rparr>,
                       ApiRequest \<lparr>req_offset = 4, req_limit = 2\<rparr>],
              remote = 3\<rparr>)
   \<and> global_options_listWithIterator (scripted_env one_page) (Some 1) (holding ''t1'' 7200000)
     = Some (Inr (2, [1, 2]),
             \<lparr>disableTokenCache = False, accessToken = Some ''t1'', expireTime = Some 7200000,
              trace = [ApiRequest \<lparr>req_offset = 0, req_limit = 1\<rparr>],
              remote = 1\<rparr>)"
  by (simp add: page_listWithIterator_def global_options_listWithIterator_def limit_or_100_def
      page_loop.simps list_call_simps short_pages_def one_page_def)

text \<open>One successful page of 2 items out of 2, with a limit of 50: \<open>hasMore\<close> becomes
  false and the loop returns. A first page of 1 item out of 3 followed by a page with
  the code \<open>'1'\<close>: \<open>page.listWithIterator\<close> throws after the second request.\<close>

theorem offset_iterators_termination_witness:
  "object_list_loop (scripted_env one_page) 50 [] 0 0 True 0 [] (holding ''t1'' 7200000)
     = Some (([1, 2], 50, 2, False, 1, []),
             \<lparr>disableTokenCache = False, accessToken = Some ''t1'', expireTime = Some 7200000,
              trace = [ApiRequest \<lparr>req_offset = 0, req_limit = 50\<rparr>],
              remote = 1\<rparr>)
   \<and> page_listWithIterator (scripted_env denied_second_page) (Some 2) (holding ''t1'' 7200000)
     = Some (Inl (OtherError None ''denied''),
             \<lparr>disableTokenCache = False, accessToken = Some ''t1'', expireTime = Some 7200000,
              trace = [ApiRequest \<lparr>req_offset = 0, req_limit = 2\<rparr>,
                       ApiRequest \<lparr>req_offset = 2, req_limit = 2\<rparr>],
              remote = 2\<rparr>)"
proof
  let ?E = "scripted_env one_page :: (list_request, nat api_response, nat) env"
  let ?c = "holding ''t1'' 7200000 :: (list_request, nat) client"
  let ?c' = "\<lparr>disableTokenCache = False, accessToken = Some ''t1'', expireTime = Some 7200000,
              trace = [ApiRequest \<lparr>req_offset = 0, req_limit = 50\<rparr>],
              remote = 1\<rparr> :: (list_request, nat) client"
  let ?res = "\<lparr>code = ''0'', msg = [], items = [1, 2 :: nat], list_total = 2,
               has_more = False\<rparr>"
  have fetch: "object_list ?E 0 50 ?c = (Inr ?res, ?c') \<and> code ?res = ''0''"
    by (simp add: list_call_simps one_page_def)
  note step = offset_iterators_termination
         [of ?E 50 "[]" 0 0 0 "[]" ?c _ _ _ _ _ _ _ _ ?res ?c',
          THEN conjunct2, THEN conjunct2, THEN conjunct1, THEN mp, OF fetch]
  note stop = offset_iterators_termination[of ?E 50 "[1, 2]" 50 2 1 "[]" ?c', THEN conjunct1]
  have "object_list_loop ?E 50 [] 0 0 True 0 [] ?c
          = object_list_loop ?E 50 ([] @ items ?res) (0 + 50) (list_total ?res)
              (0 + 50 < list_total ?res) (0 + 1) [] ?c'"
    by (rule step)
  also have "\<dots> = object_list_loop ?E 50 [1, 2] 50 2 False 1 [] ?c'" by simp
  also have "\<dots> = Some (([1, 2], 50, 2, False, 1, []), ?c')" by (rule stop)
  finally show "object_list_loop ?E 50 [] 0 0 True 0 [] ?c
                  = Some (([1, 2], 50, 2, False, 1, []), ?c')" .
next
  let ?P = "scripted_env denied_second_page :: (list_request, nat api_response, nat) env"
  let ?d0 = "holding ''t1'' 7200000 :: (list_request, nat) client"
  let ?d1 = "\<lparr>disableTokenCache = False, accessToken = Some ''t1'', expireTime = Some 7200000,
              trace = [ApiRequest \<lparr>req_offset = 0, req_limit = 2\<rparr>],
              remote = 1\<rparr> :: (list_request, nat) client"
  let ?d2 = "\<lparr>disableTokenCache = False, accessToken = Some ''t1'', expireTime = Some 7200000,
              trace = [ApiRequest \<lparr>req_offset = 0, req_limit = 2\<rparr>,
                       ApiRequest \<lparr>req_offset = 2, req_limit = 2\<rparr>],
              remote = 2\<rparr> :: (list_request, nat) client"
  let ?denied = "\<lparr>code = ''1'', msg = ''denied'', data_items = None, items_not_array = False,
                  data_total = None, next_page_token = None\<rparr> :: nat api_response"
  note first = offset_iterators_termination
         [where P = ?P and ?lim0.0 = "Some 2" and d = ?d0,
          THEN conjunct2, THEN conjunct2, THEN conjunct2, THEN conjunct2, THEN conjunct2,
          THEN conjunct2, THEN conjunct2, THEN conjunct2, THEN conjunct2, THEN conjunct2,
          THEN conjunct2, THEN conjunct1]
  have fetch2: "api_call ?P \<lparr>req_offset = 2, req_limit = 2\<rparr> ?d1 = (Inr ?denied, ?d2)
                \<and> code ?denied \<noteq> ''0''"
    by (simp add: list_call_simps denied_second_page_def always_denied_def)
  note second = offset_iterators_termination
         [where P = ?P and poffset = 2 and plimit = 2 and d = ?d1 and pres = ?denied
            and d' = ?d2 and presults = "[0]" and ptotal = 3 and ppage = 1,
          THEN conjunct2, THEN conjunct2, THEN conjunct2, THEN conjunct2, THEN conjunct2,
          THEN conjunct2, THEN conjunct2, THEN conjunct2, THEN conjunct2, THEN conjunct2,
          THEN conjunct1, THEN mp, OF fetch2]
  have "page_listWithIterator ?P (Some 2) ?d0 = page_loop (api_call ?P) 2 [0] 2 3 1 ?d1"
    using first
    by (simp add: list_call_simps denied_second_page_def short_pages_def limit_or_100_def)
  also have "\<dots> = Some (Inl (OtherError None ''denied''), ?d2)"
    using second by (simp add: str_or_def)
  finally show "page_listWithIterator ?P (Some 2) ?d0
                  = Some (Inl (OtherError None ''denied''), ?d2)" .
qed

end
